theory Spec2Isabelle
  imports Main "HOL-Library.Signed_Division" "HOL-Library.Product_Lexorder"
    "HOL-Library.List_Lexorder" "HOL-Library.Char_ord" "HOL-Library.Multiset"
begin

section \<open>Data model\<close>

text \<open>
  The server keeps every room in Firestore: one room document, its \<open>players\<close>
  subcollection (document id = uid) and its \<open>questions\<close> subcollection (document id =
  the decimal string of the 0-based index). The model follows one room: \<open>room\<close> is the
  room document (\<open>None\<close> once it is deleted), \<open>players\<close> the player documents in
  insertion order, \<open>questions\<close> the question documents keyed by their index (the
  number \<open>i\<close> stands for the document id \<open>String(i)\<close>). Socket emissions, console output
  and the in-memory timer table are not part of the persisted state and are left out;
  a timer that fires is an event carrying the question id and uid it captured.
\<close>

type_synonym uid = string

datatype error = Error string

datatype room_state = Waiting | Active | Ended

datatype role = Player | Spectator

record gameSettings =
  questionsPerPlayer :: int
  turnTimeoutSec :: int
  stealTimeoutSec :: int
  allowSteal :: bool
  bonusForSteal :: int

record stealAttempt =
  stealerUid :: uid
  questionDbIndex :: int

record room =
  code :: string
  hostUid :: uid
  state :: room_state
  questionCount :: int
  currentQuestionDbIndex :: int
  currentTurnUid :: "uid option"
  activeTurnOrderUids :: "uid list"
  currentPlayerIndexInOrder :: int
  currentStealAttempt :: "stealAttempt option"
  settings :: gameSettings

record player =
  name :: string
  joinOrder :: int
  score :: int
  online :: bool
  role :: role

record question =
  qid :: string
  options :: "string list"
  correctIndex :: int

record db =
  room :: "room option"
  players :: "(uid \<times> player) list"
  questions :: "int \<rightharpoonup> question"

section \<open>JavaScript numbers\<close>

text \<open>
  Every number of the program is an IEEE double. The numbers of the model are the
  integer-valued ones, kept as \<open>int\<close>: up to \<open>2 ^ 53\<close> in magnitude each integer is a
  double; beyond, \<open>toDouble\<close> rounds to the nearest double (53 significant bits, ties
  to the even significand), which is what an addition or a multiplication of two
  such doubles returns for the exact result. Overflow to \<open>Infinity\<close> (beyond
  \<open>2 ^ 1024\<close>), fractions and \<open>NaN\<close> are outside the model. The indices of the turn
  order and of the questions are written by the program only, counting from 0 by
  steps of 1 within the length of a stored array, so their arithmetic is exact and is
  written with \<open>+\<close> and \<open>-\<close>.
\<close>

function bitLength :: "nat \<Rightarrow> nat" where
  "bitLength n = (if n = 0 then 0 else Suc (bitLength (n div 2)))"
  by pat_completeness auto
termination
  by (relation "measure id") auto

definition toDouble :: "int \<Rightarrow> int" where
  "toDouble n =
     (if \<bar>n\<bar> \<le> 9007199254740992 then n
      else (let e = bitLength (nat \<bar>n\<bar>) - 53;
                q = \<bar>n\<bar> div 2 ^ e;
                r = \<bar>n\<bar> mod 2 ^ e;
                m = (if 2 ^ e < 2 * r \<or> (2 * r = 2 ^ e \<and> odd q) then q + 1 else q)
            in sgn n * m * 2 ^ e))"

definition jsAdd :: "int \<Rightarrow> int \<Rightarrow> int" where
  "jsAdd a b = toDouble (a + b)"

definition jsMul :: "int \<Rightarrow> int \<Rightarrow> int" where
  "jsMul a b = toDouble (a * b)"

section \<open>Model layer (roomModel.js, playerModel.js, questionModel.js)\<close>

text \<open>
  \<open>updateRoom\<close> is Firestore's \<open>update\<close> on the room document. Every call in the
  services follows a successful read of the same document, so the update of a missing
  document (a rejected promise) is not a branch of the model.
\<close>

definition updateRoom :: "db \<Rightarrow> (room \<Rightarrow> room) \<Rightarrow> db" where
  "updateRoom d f = d\<lparr>room := map_option f (room d)\<rparr>"

text \<open>\<open>deleteRoom\<close> deletes the room document only; the subcollections stay.\<close>

definition deleteRoom :: "db \<Rightarrow> db" where
  "deleteRoom d = d\<lparr>room := None\<rparr>"

text \<open>\<open>getPlayer\<close> throws on a falsy uid (the empty string) and returns null for a
  missing document.\<close>

definition getPlayer :: "db \<Rightarrow> uid \<Rightarrow> error + player option" where
  "getPlayer d u =
     (if u = [] then Inl (Error ''Room ID and UID are required for getPlayer.'')
      else Inr (map_of (players d) u))"

text \<open>\<open>updatePlayer\<close> and \<open>incrementPlayerScore\<close> are Firestore updates: they reject
  when the document does not exist. The sum of \<open>FieldValue.increment\<close> is a sum of two
  numbers of the program.\<close>

definition updatePlayer :: "db \<Rightarrow> uid \<Rightarrow> (player \<Rightarrow> player) \<Rightarrow> error + db" where
  "updatePlayer d u f =
     (if u = [] then Inl (Error ''Room ID and UID are required for updatePlayer.'')
      else if map_of (players d) u = None then Inl (Error ''NOT_FOUND'')
      else Inr (d\<lparr>players := map (\<lambda>(v, p). if v = u then (v, f p) else (v, p)) (players d)\<rparr>))"

definition incrementPlayerScore :: "db \<Rightarrow> uid \<Rightarrow> int \<Rightarrow> error + db" where
  "incrementPlayerScore d u amount =
     (if u = [] then Inl (Error ''Room ID and UID are required for incrementPlayerScore.'')
      else if map_of (players d) u = None then Inl (Error ''NOT_FOUND'')
      else Inr (d\<lparr>players :=
             map (\<lambda>(v, p). if v = u then (v, p\<lparr>score := jsAdd (score p) amount\<rparr>) else (v, p)) (players d)\<rparr>))"

text \<open>\<open>deletePlayer\<close> throws on a falsy uid; deleting a missing document succeeds.\<close>

definition deletePlayer :: "db \<Rightarrow> uid \<Rightarrow> error + db" where
  "deletePlayer d u =
     (if u = [] then Inl (Error ''Room ID and UID are required for deletePlayer.'')
      else Inr (d\<lparr>players := filter (\<lambda>(v, p). v \<noteq> u) (players d)\<rparr>))"

text \<open>\<open>getPlayersByRoomSorted\<close>: ordered by \<open>joinOrder\<close>, ties by document id.\<close>

definition getPlayersByRoomSorted :: "db \<Rightarrow> (uid \<times> player) list" where
  "getPlayersByRoomSorted d = sort_key (\<lambda>(u, p). (joinOrder p, u)) (players d)"

text \<open>
  \<open>getQuestion(roomId, questionId)\<close> starts with
  \<^verbatim>\<open>if (!roomId || !questionId) throw new Error(...)\<close>.
  The services pass the numeric index, and \<^verbatim>\<open>!0\<close> is true in JavaScript: index 0 is
  rejected. The returned object is \<^verbatim>\<open>{ id: doc.id, ...doc.data() }\<close>; the stored data
  carries its own \<open>id\<close> field, which is the \<open>qid\<close> of the model.
\<close>

definition getQuestion :: "db \<Rightarrow> int \<Rightarrow> error + question option" where
  "getQuestion d i =
     (if i = 0 then Inl (Error ''Room ID and Question ID are required for getQuestion.'')
      else Inr (questions d i))"

text \<open>
  \<open>getAllQuestions\<close> orders its query by \<^verbatim>\<open>FieldValue.documentId()\<close>. \<open>dbConfig.js\<close>
  exports \<^verbatim>\<open>admin.firestore.FieldValue\<close> under that name, and \<open>documentId\<close> is a member of
  \<open>FieldPath\<close>, not of \<open>FieldValue\<close>: the call is a call of \<open>undefined\<close> and throws a
  \<open>TypeError\<close> before any query is sent, for every room.
\<close>

definition getAllQuestions :: "db \<Rightarrow> error + question list" where
  "getAllQuestions d = Inl (Error ''FieldValue.documentId is not a function'')"

section \<open>Game engine (gameService.js)\<close>

text \<open>\<open>Array.prototype.indexOf\<close>: the first index, or -1.\<close>

fun indexOf :: "'a list \<Rightarrow> 'a \<Rightarrow> int" where
  "indexOf [] x = -1"
| "indexOf (y # ys) x = (if y = x then 0 else (let i = indexOf ys x in if i = -1 then -1 else i + 1))"

definition isOnlinePlayer :: "player option \<Rightarrow> bool" where
  "isOnlinePlayer p = (case p of None \<Rightarrow> False | Some pl \<Rightarrow> online pl \<and> role pl = Player)"

text \<open>
  The loop of \<open>findNextOnlinePlayerInFixedOrder\<close>: \<open>i\<close> is the loop counter, \<open>k\<close> the
  number of iterations left. \<open>%\<close> is JavaScript's remainder (sign of the dividend), and
  an index outside the array reads \<open>undefined\<close>, on which \<open>getPlayer\<close> throws.
\<close>

fun findNextLoop :: "db \<Rightarrow> uid list \<Rightarrow> int \<Rightarrow> nat \<Rightarrow> nat \<Rightarrow> error + (uid option \<times> int)" where
  "findNextLoop d order startIndex i 0 = Inr (None, -1)"
| "findNextLoop d order startIndex i (Suc k) =
     (let nextPlayerIndexInOrder = (startIndex + int i) smod int (length order) in
      if nextPlayerIndexInOrder < 0 \<or> int (length order) \<le> nextPlayerIndexInOrder
      then Inl (Error ''Room ID and UID are required for getPlayer.'')
      else (case getPlayer d (order ! nat nextPlayerIndexInOrder) of
              Inl e \<Rightarrow> Inl e
            | Inr p \<Rightarrow>
                if isOnlinePlayer p
                then Inr (Some (order ! nat nextPlayerIndexInOrder), nextPlayerIndexInOrder)
                else findNextLoop d order startIndex (Suc i) k))"

definition findNextOnlinePlayerInFixedOrder ::
  "db \<Rightarrow> room \<Rightarrow> uid option \<Rightarrow> error + (uid option \<times> int)" where
  "findNextOnlinePlayerInFixedOrder d roomData startAfterUid =
     (if activeTurnOrderUids roomData = [] then Inr (None, -1)
      else
        (let found = (case startAfterUid of None \<Rightarrow> -1
                      | Some u \<Rightarrow> indexOf (activeTurnOrderUids roomData) u);
             startIndex = (if found = -1
                           then (if currentPlayerIndexInOrder roomData \<noteq> -1
                                 then currentPlayerIndexInOrder roomData else -1)
                           else found)
         in findNextLoop d (activeTurnOrderUids roomData) startIndex 1
              (length (activeTurnOrderUids roomData))))"

datatype phase_result = EndGame | NextTurn uid int | Steal uid

text \<open>The three updates that end a game.\<close>

definition endAllPlayed :: "int \<Rightarrow> room \<Rightarrow> room" where
  "endAllPlayed newQuestionDbIndex r =
     r\<lparr>state := Ended, currentTurnUid := None, currentQuestionDbIndex := newQuestionDbIndex,
       currentPlayerIndexInOrder := -1, currentStealAttempt := None\<rparr>"

definition endFault :: "room \<Rightarrow> room" where
  "endFault r = r\<lparr>state := Ended, currentTurnUid := None, currentPlayerIndexInOrder := -1\<rparr>"

definition setTurn :: "uid \<Rightarrow> int \<Rightarrow> int \<Rightarrow> room \<Rightarrow> room" where
  "setTurn u i q r =
     r\<lparr>currentTurnUid := Some u, currentPlayerIndexInOrder := i,
       currentQuestionDbIndex := q, currentStealAttempt := None\<rparr>"

definition setupNextTurnOrEndGame ::
  "db \<Rightarrow> uid \<Rightarrow> int \<Rightarrow> int \<Rightarrow> (error + phase_result) \<times> db" where
  "setupNextTurnOrEndGame d newCurrentTurnPlayerUid newPlayerIndexInOrder newQuestionDbIndex =
     (case room d of
        None \<Rightarrow> (Inl (Error ''Room not found for setting up next turn.''), d)
      | Some roomData \<Rightarrow>
          if questionCount roomData \<le> newQuestionDbIndex
          then (Inr EndGame, updateRoom d (endAllPlayed newQuestionDbIndex))
          else (case getQuestion d newQuestionDbIndex of
                  Inl e \<Rightarrow> (Inl e, d)
                | Inr None \<Rightarrow> (Inr EndGame, updateRoom d endFault)
                | Inr (Some nextQuestion) \<Rightarrow>
                    (case getPlayer d newCurrentTurnPlayerUid of
                       Inl e \<Rightarrow> (Inl e, d)
                     | Inr playerDoc \<Rightarrow>
                         if \<not> isOnlinePlayer playerDoc
                         then (case findNextOnlinePlayerInFixedOrder d roomData
                                      (Some newCurrentTurnPlayerUid) of
                                 Inl e \<Rightarrow> (Inl e, d)
                               | Inr (None, substituteIndex) \<Rightarrow>
                                   (Inr EndGame, updateRoom d endFault)
                               | Inr (Some substituteUid, substituteIndex) \<Rightarrow>
                                   (Inr (NextTurn substituteUid (newQuestionDbIndex + 1)),
                                    updateRoom d
                                      (setTurn substituteUid substituteIndex newQuestionDbIndex)))
                         else (Inr (NextTurn newCurrentTurnPlayerUid (newQuestionDbIndex + 1)),
                               updateRoom d
                                 (setTurn newCurrentTurnPlayerUid newPlayerIndexInOrder
                                    newQuestionDbIndex)))))"

text \<open>
  A reply of \<open>submitAnswer\<close> or \<open>handleSteal\<close>: \<open>NoAction stale\<close> is
  \<^verbatim>\<open>{ noActionTaken: true }\<close> with the \<open>staleTimeout\<close> flag; \<open>Answer correct phase\<close> is
  the result object with its \<open>correct\<close> and \<open>nextPhase\<close> fields.
\<close>

datatype reply = NoAction bool | Answer bool phase_result

definition noActionTaken :: "reply \<Rightarrow> bool" where
  "noActionTaken r = (case r of NoAction stale \<Rightarrow> True | Answer c ph \<Rightarrow> False)"

text \<open>
  \<open>submitAnswer\<close> has the same block three times (after a correct answer, with steals
  disabled, and when no distinct stealer exists): find the next online player, end the
  game if there is none, else set up the next turn.
\<close>

definition advanceAfterAnswer :: "db \<Rightarrow> room \<Rightarrow> uid \<Rightarrow> bool \<Rightarrow> (error + reply) \<times> db" where
  "advanceAfterAnswer d roomData u isCorrect =
     (case findNextOnlinePlayerInFixedOrder d roomData (Some u) of
        Inl e \<Rightarrow> (Inl e, d)
      | Inr (None, nextPlayerIndexInOrder) \<Rightarrow>
          (Inr (Answer isCorrect EndGame), updateRoom d endFault)
      | Inr (Some nextPlayerUid, nextPlayerIndexInOrder) \<Rightarrow>
          (case setupNextTurnOrEndGame d nextPlayerUid nextPlayerIndexInOrder
                  (currentQuestionDbIndex roomData + 1) of
             (Inl e, d') \<Rightarrow> (Inl e, d')
           | (Inr ph, d') \<Rightarrow> (Inr (Answer isCorrect ph), d')))"

text \<open>The part of \<open>submitAnswer\<close> after its guards (from \<open>clearActiveRoomTimer\<close> on).\<close>

definition processAnswer ::
  "db \<Rightarrow> room \<Rightarrow> question \<Rightarrow> uid \<Rightarrow> int \<Rightarrow> bool \<Rightarrow> (error + reply) \<times> db" where
  "processAnswer d roomData currentQuestion u answerIndex isTimeout =
     (let isCorrect = (\<not> isTimeout \<and> correctIndex currentQuestion = answerIndex) in
      case (if isCorrect then incrementPlayerScore d u 1 else Inr d) of
        Inl e \<Rightarrow> (Inl e, d)
      | Inr d1 \<Rightarrow>
          if isCorrect then advanceAfterAnswer d1 roomData u isCorrect
          else if \<not> allowSteal (settings roomData) then advanceAfterAnswer d1 roomData u isCorrect
          else (case findNextOnlinePlayerInFixedOrder d1 roomData (Some u) of
                  Inl e \<Rightarrow> (Inl e, d1)
                | Inr (None, i) \<Rightarrow> advanceAfterAnswer d1 roomData u isCorrect
                | Inr (Some stealerUidIfAny, i) \<Rightarrow>
                    if stealerUidIfAny \<noteq> u
                    then (Inr (Answer isCorrect (Steal stealerUidIfAny)),
                          updateRoom d1 (\<lambda>r. r\<lparr>currentStealAttempt :=
                             Some \<lparr>stealerUid = stealerUidIfAny,
                                   questionDbIndex = currentQuestionDbIndex roomData\<rparr>\<rparr>))
                    else advanceAfterAnswer d1 roomData u isCorrect))"

definition submitAnswer :: "db \<Rightarrow> uid \<Rightarrow> string \<Rightarrow> int \<Rightarrow> bool \<Rightarrow> (error + reply) \<times> db" where
  "submitAnswer d u questionId answerIndex isTimeout =
     (case room d of
        None \<Rightarrow> (Inr (NoAction False), d)
      | Some roomData \<Rightarrow>
          if state roomData \<noteq> Active then (Inr (NoAction False), d)
          else if \<not> isTimeout \<and> currentTurnUid roomData \<noteq> Some u
          then (Inl (Error ''Not your turn.''), d)
          else if isTimeout \<and> currentTurnUid roomData \<noteq> Some u
          then (Inr (NoAction True), d)
          else (case getQuestion d (currentQuestionDbIndex roomData) of
                  Inl e \<Rightarrow> (Inl e, d)
                | Inr None \<Rightarrow>
                    if isTimeout then (Inr (NoAction True), d)
                    else (Inl (Error ''Question ID mismatch or question not found.''), d)
                | Inr (Some currentQuestion) \<Rightarrow>
                    if qid currentQuestion \<noteq> questionId
                    then (if isTimeout then (Inr (NoAction True), d)
                          else (Inl (Error ''Question ID mismatch or question not found.''), d))
                    else processAnswer d roomData currentQuestion u answerIndex isTimeout))"

text \<open>The part of \<open>handleSteal\<close> after its guards.\<close>

definition processSteal ::
  "db \<Rightarrow> room \<Rightarrow> question \<Rightarrow> uid \<Rightarrow> int \<Rightarrow> bool \<Rightarrow> (error + reply) \<times> db" where
  "processSteal d roomData currentQuestion u answerIndex isTimeout =
     (let isCorrect = (\<not> isTimeout \<and> correctIndex currentQuestion = answerIndex) in
      case (if isCorrect
            then incrementPlayerScore d u (jsAdd 1 (bonusForSteal (settings roomData)))
            else Inr d) of
        Inl e \<Rightarrow> (Inl e, d)
      | Inr d1 \<Rightarrow>
          (let stealerIndexInOrder = indexOf (activeTurnOrderUids roomData) u in
           if stealerIndexInOrder = -1
           then (Inr (Answer isCorrect EndGame), updateRoom d1 endFault)
           else (case setupNextTurnOrEndGame d1 u stealerIndexInOrder
                        (currentQuestionDbIndex roomData + 1) of
                   (Inl e, d') \<Rightarrow> (Inl e, d')
                 | (Inr ph, d') \<Rightarrow> (Inr (Answer isCorrect ph), d'))))"

definition handleSteal :: "db \<Rightarrow> uid \<Rightarrow> string \<Rightarrow> int \<Rightarrow> bool \<Rightarrow> (error + reply) \<times> db" where
  "handleSteal d u questionId answerIndex isTimeout =
     (case room d of
        None \<Rightarrow> (Inr (NoAction False), d)
      | Some roomData \<Rightarrow>
          if state roomData \<noteq> Active then (Inr (NoAction False), d)
          else if (case currentStealAttempt roomData of
                     None \<Rightarrow> True
                   | Some a \<Rightarrow> stealerUid a \<noteq> u
                               \<or> currentQuestionDbIndex roomData \<noteq> questionDbIndex a)
          then (if isTimeout \<and> (case currentStealAttempt roomData of
                                    None \<Rightarrow> True | Some a \<Rightarrow> stealerUid a \<noteq> u)
                then (Inr (NoAction True), d)
                else (Inl (Error ''Not your turn to steal or steal attempt is stale/invalid.''), d))
          else (case getQuestion d (currentQuestionDbIndex roomData) of
                  Inl e \<Rightarrow> (Inl e, d)
                | Inr None \<Rightarrow> (Inl (Error ''Steal question ID mismatch.''), d)
                | Inr (Some currentQuestion) \<Rightarrow>
                    if qid currentQuestion \<noteq> questionId
                    then (Inl (Error ''Steal question ID mismatch.''), d)
                    else processSteal d roomData currentQuestion u answerIndex isTimeout))"

text \<open>
  The callback of \<open>scheduleGameTimeout\<close>, fired with the phase, question id and uid it
  captured. A rejection before the \<open>try\<close> block aborts the callback; a rejection of the
  submission inside it starts the recovery, which works from the room data read at the
  start of the callback.
\<close>

datatype phase = TurnPhase | StealPhase

definition timeoutRecovery :: "db \<Rightarrow> room \<Rightarrow> phase \<Rightarrow> uid \<Rightarrow> db" where
  "timeoutRecovery d roomData ph uidForTimeout =
     (case (case ph of
              StealPhase \<Rightarrow>
                Inr (Some uidForTimeout, indexOf (activeTurnOrderUids roomData) uidForTimeout)
            | TurnPhase \<Rightarrow> findNextOnlinePlayerInFixedOrder d roomData (Some uidForTimeout)) of
        Inl e \<Rightarrow> d
      | Inr (None, i) \<Rightarrow> updateRoom d endFault
      | Inr (Some nextTurnPlayerForRecovery, i) \<Rightarrow>
          if nextTurnPlayerForRecovery \<noteq> [] \<and> i \<noteq> -1
          then snd (setupNextTurnOrEndGame d nextTurnPlayerForRecovery i
                      (currentQuestionDbIndex roomData + 1))
          else updateRoom d endFault)"

definition gameTimeoutFired :: "db \<Rightarrow> phase \<Rightarrow> string \<Rightarrow> uid \<Rightarrow> db" where
  "gameTimeoutFired d ph questionId uidForTimeout =
     (case room d of
        None \<Rightarrow> d
      | Some roomData \<Rightarrow>
          if state roomData \<noteq> Active then d
          else (case getQuestion d (currentQuestionDbIndex roomData) of
                  Inl e \<Rightarrow> d
                | Inr None \<Rightarrow> d
                | Inr (Some currentQuestionForPhase) \<Rightarrow>
                    if qid currentQuestionForPhase \<noteq> questionId
                       \<or> Some uidForTimeout \<noteq>
                            (case ph of
                               TurnPhase \<Rightarrow> currentTurnUid roomData
                             | StealPhase \<Rightarrow> map_option stealerUid (currentStealAttempt roomData))
                    then d
                    else (case getPlayer d uidForTimeout of
                            Inl e \<Rightarrow> d
                          | Inr playerToTimeout \<Rightarrow>
                              (case (case ph of
                                       TurnPhase \<Rightarrow> submitAnswer d uidForTimeout questionId (-1) True
                                     | StealPhase \<Rightarrow> handleSteal d uidForTimeout questionId (-1) True) of
                                 (Inr r, d') \<Rightarrow> d'
                               | (Inl e, d') \<Rightarrow> timeoutRecovery d' roomData ph uidForTimeout))))"

subsection \<open>startGame\<close>

text \<open>
  The overrides of \<open>game:start\<close> arrive unvalidated; \<open>a || b\<close> takes \<open>b\<close> when \<open>a\<close> is
  missing or 0. What the trivia API returned is a parameter: the request failed, or it
  gave a \<open>results\<close> array (possibly missing). So is the outcome of
  \<^verbatim>\<open>[...incorrect, correct].sort(() => 0.5 - Math.random())\<close> for the item at each
  index.
\<close>

record settingsPatch =
  newQuestionsPerPlayer :: "int option"
  newTurnTimeoutSec :: "int option"
  newStealTimeoutSec :: "int option"
  newAllowSteal :: "bool option"
  newBonusForSteal :: "int option"

record questionItem =
  correct_answer :: string
  incorrect_answers :: "string list"

datatype fetched = FetchFailed string | Fetched "questionItem list option"

text \<open>\<open>a || b\<close> on numbers: \<open>0\<close> is falsy. A number of the request is the double its
  JSON text parses to (\<open>fromRequest\<close>).\<close>

definition orElse :: "int option \<Rightarrow> int \<Rightarrow> int" where
  "orElse a b = (case a of None \<Rightarrow> b | Some v \<Rightarrow> if v \<noteq> 0 then v else b)"

definition fromRequest :: "int option \<Rightarrow> int option" where
  "fromRequest a = map_option toDouble a"

definition mergeSettings :: "settingsPatch \<Rightarrow> gameSettings \<Rightarrow> gameSettings" where
  "mergeSettings p existing =
     \<lparr>questionsPerPlayer =
        orElse (fromRequest (newQuestionsPerPlayer p))
          (orElse (Some (questionsPerPlayer existing)) 5),
      turnTimeoutSec =
        orElse (fromRequest (newTurnTimeoutSec p)) (orElse (Some (turnTimeoutSec existing)) 30),
      stealTimeoutSec =
        orElse (fromRequest (newStealTimeoutSec p)) (orElse (Some (stealTimeoutSec existing)) 15),
      allowSteal = (case newAllowSteal p of Some b \<Rightarrow> b | None \<Rightarrow> allowSteal existing),
      bonusForSteal =
        (case fromRequest (newBonusForSteal p) of
           Some b \<Rightarrow> b
         | None \<Rightarrow> bonusForSteal existing)\<rparr>"

text \<open>\<open>String(idx)\<close> for an array index.\<close>

definition digit_char :: "nat \<Rightarrow> char" where
  "digit_char n = char_of (48 + n)"

function string_of_nat :: "nat \<Rightarrow> string" where
  "string_of_nat n =
     (if n < 10 then [digit_char n] else string_of_nat (n div 10) @ [digit_char (n mod 10)])"
  by pat_completeness auto
termination
  by (relation "measure id") auto

definition toQuestion :: "(nat \<Rightarrow> string list \<Rightarrow> string list) \<Rightarrow> nat \<Rightarrow> questionItem \<Rightarrow> question" where
  "toQuestion shuffle idx item =
     (let opts = shuffle idx (incorrect_answers item @ [correct_answer item]) in
      \<lparr>qid = string_of_nat idx, options = opts,
       correctIndex = indexOf opts (correct_answer item)\<rparr>)"

fun batchStoreQuestions :: "(int \<rightharpoonup> question) \<Rightarrow> nat \<Rightarrow> question list \<Rightarrow> (int \<rightharpoonup> question)" where
  "batchStoreQuestions m idx [] = m"
| "batchStoreQuestions m idx (q # qs) = batchStoreQuestions (m(int idx \<mapsto> q)) (Suc idx) qs"

definition isParticipating :: "uid \<times> player \<Rightarrow> bool" where
  "isParticipating up = (online (snd up) \<and> role (snd up) = Player)"

datatype snapshot = Snapshot uid int

definition startGame ::
  "db \<Rightarrow> settingsPatch \<Rightarrow> fetched \<Rightarrow> (nat \<Rightarrow> string list \<Rightarrow> string list) \<Rightarrow> (error + snapshot) \<times> db" where
  "startGame d patch fetchResponse shuffle =
     (case room d of
        None \<Rightarrow> (Inl (Error ''Room not found.''), d)
      | Some existingRoomData \<Rightarrow>
          (let onlineParticipatingPlayers = filter isParticipating (getPlayersByRoomSorted d) in
           if length onlineParticipatingPlayers < 2
           then (Inl (Error ''At least two online player role users are required to start the game.''), d)
           else
             (let newSettings = mergeSettings patch (settings existingRoomData);
                  totalQuestionCount =
                    jsMul (int (length onlineParticipatingPlayers)) (questionsPerPlayer newSettings)
              in case fetchResponse of
                   FetchFailed statusText \<Rightarrow> (Inl (Error ''Failed to fetch questions''), d)
                 | Fetched None \<Rightarrow> (Inl (Error ''Not enough questions fetched''), d)
                 | Fetched (Some questionItems) \<Rightarrow>
                     if int (length questionItems) < totalQuestionCount
                     then (Inl (Error ''Not enough questions fetched''), d)
                     else
                       (let activeTurnOrder = map fst onlineParticipatingPlayers;
                            d' = d\<lparr>room := Some (existingRoomData
                                    \<lparr>state := Active, currentQuestionDbIndex := 0,
                                     questionCount := totalQuestionCount,
                                     currentTurnUid := Some (hd activeTurnOrder),
                                     activeTurnOrderUids := activeTurnOrder,
                                     currentPlayerIndexInOrder := 0,
                                     currentStealAttempt := None,
                                     settings := newSettings\<rparr>),
                                   players := map (\<lambda>(v, p). if v \<in> set activeTurnOrder
                                                then (v, p\<lparr>score := 0\<rparr>) else (v, p)) (players d),
                                   questions := batchStoreQuestions (questions d) 0
                                      (map (\<lambda>(idx, item). toQuestion shuffle idx item)
                                         (enumerate 0 questionItems))\<rparr>
                        in case getAllQuestions d' of
                             Inl e \<Rightarrow> (Inl e, d')
                           | Inr allQuestionsForClient \<Rightarrow>
                               (case getQuestion d' 0 of
                                  Inl e \<Rightarrow> (Inl e, d')
                                | Inr None \<Rightarrow> (Inl (Error ''Failed to load first question.''), d')
                                | Inr (Some firstQuestion) \<Rightarrow>
                                    (Inr (Snapshot (hd activeTurnOrder) totalQuestionCount), d'))))))"

text \<open>The \<open>game:start\<close> handler: the socket must be in the room and authenticated; the
  host check is a TODO in the source and is not performed.\<close>

definition gameStartHandler ::
  "db \<Rightarrow> bool \<Rightarrow> uid \<Rightarrow> settingsPatch \<Rightarrow> fetched \<Rightarrow> (nat \<Rightarrow> string list \<Rightarrow> string list)
     \<Rightarrow> (error + snapshot) \<times> db" where
  "gameStartHandler d inRoom socketUid patch fetchResponse shuffle =
     (if \<not> inRoom \<or> socketUid = []
      then (Inl (Error ''Invalid roomId, not in room, or not authenticated.''), d)
      else startGame d patch fetchResponse shuffle)"

subsection \<open>Connectivity: disconnect, voluntary leave, rejoin\<close>

definition stealerIs :: "room \<Rightarrow> uid \<Rightarrow> bool" where
  "stealerIs r u = (case currentStealAttempt r of None \<Rightarrow> False | Some a \<Rightarrow> stealerUid a = u)"

text \<open>The recovery of \<open>cleanupOnDisconnect\<close> when the current question cannot be read.\<close>

definition advanceWithoutQuestion :: "db \<Rightarrow> room \<Rightarrow> uid option \<Rightarrow> db" where
  "advanceWithoutQuestion d roomData startAfterUid =
     (case findNextOnlinePlayerInFixedOrder d roomData startAfterUid of
        Inl e \<Rightarrow> d
      | Inr (None, i) \<Rightarrow> d
      | Inr (Some nextPlayerUid, nextPlayerIndexInOrder) \<Rightarrow>
          if nextPlayerUid \<noteq> []
          then snd (setupNextTurnOrEndGame d nextPlayerUid nextPlayerIndexInOrder
                      (currentQuestionDbIndex roomData + 1))
          else d)"

text \<open>\<open>cleanupOnDisconnect\<close> for one room of the list; its \<open>try/catch\<close> swallows every
  error, leaving what was written before it.\<close>

definition cleanupOnDisconnect :: "db \<Rightarrow> uid \<Rightarrow> db" where
  "cleanupOnDisconnect d u =
     (case room d of
        None \<Rightarrow> d
      | Some roomData \<Rightarrow>
          if state roomData \<noteq> Active then d
          else (case getPlayer d u of
                  Inl e \<Rightarrow> d
                | Inr None \<Rightarrow> d
                | Inr (Some p) \<Rightarrow>
                    if \<not> online p then d
                    else (case updatePlayer d u (\<lambda>p. p\<lparr>online := False\<rparr>) of
                            Inl e \<Rightarrow> d
                          | Inr d1 \<Rightarrow>
                              (case getQuestion d1 (currentQuestionDbIndex roomData) of
                                 Inl e \<Rightarrow> d1
                               | Inr currentQuestion \<Rightarrow>
                                   if currentTurnUid roomData = Some u
                                   then (case currentQuestion of
                                           Some q \<Rightarrow> snd (submitAnswer d1 u (qid q) (-1) True)
                                         | None \<Rightarrow> advanceWithoutQuestion d1 roomData (Some u))
                                   else if stealerIs roomData u
                                   then (case currentQuestion of
                                           Some q \<Rightarrow> snd (handleSteal d1 u (qid q) (-1) True)
                                         | None \<Rightarrow> advanceWithoutQuestion d1 roomData
                                                     (currentTurnUid roomData))
                                   else d1))))"

text \<open>The count of online players of the new turn order in \<open>handlePlayerLeave\<close>; each
  iteration reads the player document.\<close>

fun countOnlinePlayers :: "db \<Rightarrow> uid list \<Rightarrow> error + nat" where
  "countOnlinePlayers d [] = Inr 0"
| "countOnlinePlayers d (playerId # rest) =
     (case getPlayer d playerId of
        Inl e \<Rightarrow> Inl e
      | Inr p \<Rightarrow>
          (case countOnlinePlayers d rest of
             Inl e \<Rightarrow> Inl e
           | Inr n \<Rightarrow> Inr (if isOnlinePlayer p then Suc n else n)))"

definition endTooFewPlayers :: "room \<Rightarrow> room" where
  "endTooFewPlayers r =
     r\<lparr>state := Ended, currentTurnUid := None, currentStealAttempt := None,
       currentPlayerIndexInOrder := -1\<rparr>"

definition endNoQuestion :: "room \<Rightarrow> room" where
  "endNoQuestion r = r\<lparr>state := Ended, currentTurnUid := None, currentStealAttempt := None\<rparr>"

text \<open>The part of \<open>handlePlayerLeave\<close> after the turn order is updated: \<open>d\<close> is the
  state then, \<open>roomData\<close> the local copy of the room data.\<close>

definition afterTurnOrderUpdate :: "db \<Rightarrow> room \<Rightarrow> uid \<Rightarrow> db" where
  "afterTurnOrderUpdate d roomData u =
     (case countOnlinePlayers d (activeTurnOrderUids roomData) of
        Inl e \<Rightarrow> d
      | Inr onlinePlayerRoleCountInNewOrder \<Rightarrow>
          if onlinePlayerRoleCountInNewOrder < 2
          then updateRoom d endTooFewPlayers
          else (case getQuestion d (currentQuestionDbIndex roomData) of
                  Inl e \<Rightarrow> d
                | Inr None \<Rightarrow> updateRoom d endNoQuestion
                | Inr (Some currentQuestion) \<Rightarrow>
                    if currentTurnUid roomData = Some u
                    then snd (submitAnswer d u (qid currentQuestion) (-1) True)
                    else if stealerIs roomData u
                    then snd (handleSteal d u (qid currentQuestion) (-1) True)
                    else d))"

definition handlePlayerLeave :: "db \<Rightarrow> uid \<Rightarrow> db" where
  "handlePlayerLeave d u =
     (case room d of
        None \<Rightarrow> d
      | Some roomDataInitial \<Rightarrow>
          if state roomDataInitial \<noteq> Active then d
          else (case getPlayer d u of
                  Inl e \<Rightarrow> d
                | Inr playerLeaving \<Rightarrow>
                    (case (if (case playerLeaving of None \<Rightarrow> False | Some p \<Rightarrow> online p)
                           then updatePlayer d u (\<lambda>p. p\<lparr>online := False\<rparr>) else Inr d) of
                       Inl e \<Rightarrow> d
                     | Inr d1 \<Rightarrow>
                         (let order = activeTurnOrderUids roomDataInitial;
                              newActiveTurnOrderUids = filter (\<lambda>playerId. playerId \<noteq> u) order;
                              oldIndexOfLeavingPlayer = indexOf order u;
                              newPlayerIndexInOrder =
                                (if oldIndexOfLeavingPlayer \<noteq> -1
                                    \<and> oldIndexOfLeavingPlayer \<le> currentPlayerIndexInOrder roomDataInitial
                                    \<and> 0 < currentPlayerIndexInOrder roomDataInitial
                                 then currentPlayerIndexInOrder roomDataInitial - 1
                                 else currentPlayerIndexInOrder roomDataInitial)
                          in if length newActiveTurnOrderUids < length order
                             then afterTurnOrderUpdate
                                    (updateRoom d1
                                       (\<lambda>r. r\<lparr>activeTurnOrderUids := newActiveTurnOrderUids,
                                               currentPlayerIndexInOrder := newPlayerIndexInOrder\<rparr>))
                                    (roomDataInitial
                                       \<lparr>activeTurnOrderUids := newActiveTurnOrderUids,
                                        currentPlayerIndexInOrder := newPlayerIndexInOrder\<rparr>)
                                    u
                             else afterTurnOrderUpdate d1 roomDataInitial u))))"

text \<open>\<open>handleRejoinGame\<close>: the role is written before the snapshot for the reply is
  read. In an active room the snapshot reads the current question and then all
  questions, and the second read throws: the new role stays in place and the reply
  is an error.\<close>

definition turnSlotPassed :: "room \<Rightarrow> uid \<Rightarrow> bool" where
  "turnSlotPassed roomData u =
     (let playerIndexInActiveOrder = indexOf (activeTurnOrderUids roomData) u in
      playerIndexInActiveOrder < currentPlayerIndexInOrder roomData
      \<or> (playerIndexInActiveOrder = currentPlayerIndexInOrder roomData
          \<and> currentTurnUid roomData \<noteq> Some u))"

definition rejoinRole :: "room \<Rightarrow> uid \<Rightarrow> role" where
  "rejoinRole roomData u =
     (if state roomData = Active
      then (if indexOf (activeTurnOrderUids roomData) u = -1 then Spectator
            else if turnSlotPassed roomData u then Spectator else Player)
      else Player)"

definition handleRejoinGame :: "db \<Rightarrow> uid \<Rightarrow> (error + role) \<times> db" where
  "handleRejoinGame d u =
     (case room d of
        None \<Rightarrow> (Inl (Error ''Room not found for rejoin.''), d)
      | Some roomData \<Rightarrow>
          (case getPlayer d u of
             Inl e \<Rightarrow> (Inl e, d)
           | Inr None \<Rightarrow> (Inl (Error ''Player not found in room records. Cannot rejoin.''), d)
           | Inr (Some playerDoc) \<Rightarrow>
               (let playerRole = rejoinRole roomData u in
                case updatePlayer d u (\<lambda>p. p\<lparr>online := True, role := playerRole\<rparr>) of
                  Inl e \<Rightarrow> (Inl e, d)
                | Inr d' \<Rightarrow>
                    if state roomData = Active
                    then (case getQuestion d' (currentQuestionDbIndex roomData) of
                            Inl e \<Rightarrow> (Inl e, d')
                          | Inr currentQuestion \<Rightarrow>
                              (case getAllQuestions d' of
                                 Inl e \<Rightarrow> (Inl e, d')
                               | Inr allQuestionsForClient \<Rightarrow> (Inr playerRole, d')))
                    else (Inr playerRole, d'))))"

section \<open>Room membership (roomService.js)\<close>

definition defaultSettings :: gameSettings where
  "defaultSettings =
     \<lparr>questionsPerPlayer = 5, turnTimeoutSec = 30, stealTimeoutSec = 15,
      allowSteal = True, bonusForSteal = 1\<rparr>"

definition createRoom :: "uid \<Rightarrow> string \<Rightarrow> string \<Rightarrow> db" where
  "createRoom u displayName roomCode =
     \<lparr>room = Some \<lparr>code = roomCode, hostUid = u, state = Waiting, questionCount = 0,
                    currentQuestionDbIndex = 0, currentTurnUid = None,
                    activeTurnOrderUids = [], currentPlayerIndexInOrder = -1,
                    currentStealAttempt = None, settings = defaultSettings\<rparr>,
      players = [(u, \<lparr>name = displayName, joinOrder = 1, score = 0, online = True,
                       role = Player\<rparr>)],
      questions = Map.empty\<rparr>"

definition MAX_PLAYERS_ROLE_COUNT :: nat where
  "MAX_PLAYERS_ROLE_COUNT = 8"

definition MAX_SPECTATORS_COUNT :: nat where
  "MAX_SPECTATORS_COUNT = 5"

definition MAX_TOTAL_USERS_IN_ROOM :: nat where
  "MAX_TOTAL_USERS_IN_ROOM = MAX_PLAYERS_ROLE_COUNT + MAX_SPECTATORS_COUNT"

definition countRole :: "role \<Rightarrow> db \<Rightarrow> nat" where
  "countRole ro d = length (filter (\<lambda>(v, p). role p = ro) (players d))"

definition addPlayer :: "db \<Rightarrow> uid \<Rightarrow> string \<Rightarrow> role \<Rightarrow> db" where
  "addPlayer d u displayName playerRole =
     d\<lparr>players := players d @
          [(u, \<lparr>name = displayName, joinOrder = int (length (players d)) + 1, score = 0,
                 online = True, role = playerRole\<rparr>)]\<rparr>"

definition joinRoom :: "db \<Rightarrow> uid \<Rightarrow> string \<Rightarrow> (error + role \<times> room_state) \<times> db" where
  "joinRoom d u displayName =
     (case room d of
        None \<Rightarrow> (Inl (Error ''Room not found with that code.''), d)
      | Some roomData \<Rightarrow>
          if state roomData = Ended
          then (Inl (Error ''This game has ended and cannot be joined for now.''), d)
          else (case map_of (players d) u of
                  Some existingPlayerData \<Rightarrow>
                    (let playerRole = (if state roomData = Active \<and> role existingPlayerData \<noteq> Player
                                       then Spectator else role existingPlayerData)
                     in (Inr (playerRole, state roomData),
                         d\<lparr>players := map (\<lambda>(v, p). if v = u
                                then (v, p\<lparr>online := True, role := playerRole\<rparr>) else (v, p))
                              (players d)\<rparr>))
                | None \<Rightarrow>
                    if MAX_TOTAL_USERS_IN_ROOM \<le> length (players d)
                    then (Inl (Error ''Room is at maximum capacity.''), d)
                    else if state roomData \<noteq> Active
                    then (if MAX_PLAYERS_ROLE_COUNT \<le> countRole Player d
                          then (if state roomData = Waiting
                                then (if countRole Spectator d < MAX_SPECTATORS_COUNT
                                      then (Inr (Spectator, state roomData),
                                            addPlayer d u displayName Spectator)
                                      else (Inl (Error ''Room is full for players and spectators.''), d))
                                else (Inl (Error ''Room is full for players.''), d))
                          else (Inr (Player, state roomData), addPlayer d u displayName Player))
                    else (if MAX_SPECTATORS_COUNT \<le> countRole Spectator d
                          then (Inl (Error ''Room is full for spectators.''), d)
                          else (Inr (Spectator, state roomData),
                                addPlayer d u displayName Spectator))))"

record leaveResult =
  hostChanged :: bool
  newHostUid :: "uid option"
  roomDeleted :: bool

definition nextHostCandidate :: "uid \<times> player \<Rightarrow> (uid \<times> player) list \<Rightarrow> uid \<times> player" where
  "nextHostCandidate first remainingPlayers =
     (case find (\<lambda>(v, p). online p \<and> role p = Player) remainingPlayers of
        Some c \<Rightarrow> c
      | None \<Rightarrow>
          (case find (\<lambda>(v, p). role p = Player) remainingPlayers of
             Some c \<Rightarrow> c
           | None \<Rightarrow>
               (case find (\<lambda>(v, p). online p \<and> role p = Spectator) remainingPlayers of
                  Some c \<Rightarrow> c
                | None \<Rightarrow> first)))"

definition leaveRoom :: "db \<Rightarrow> uid \<Rightarrow> (error + leaveResult) \<times> db" where
  "leaveRoom d u =
     (case room d of
        None \<Rightarrow> (Inr \<lparr>hostChanged = False, newHostUid = None, roomDeleted = False\<rparr>, d)
      | Some roomData \<Rightarrow>
          (case deletePlayer d u of
             Inl e \<Rightarrow> (Inl e, d)
           | Inr d1 \<Rightarrow>
               (case getPlayersByRoomSorted d1 of
                  [] \<Rightarrow> (Inr \<lparr>hostChanged = False, newHostUid = None, roomDeleted = True\<rparr>,
                         deleteRoom d1)
                | first # others \<Rightarrow>
                    if hostUid roomData = u
                    then (let candidate = nextHostCandidate first (first # others);
                              d2 = updateRoom d1 (\<lambda>r. r\<lparr>hostUid := fst candidate\<rparr>);
                              d3 = (if role (snd candidate) = Spectator
                                    then d2\<lparr>players := map (\<lambda>(v, p). if v = fst candidate
                                                then (v, p\<lparr>role := Player\<rparr>) else (v, p)) (players d2)\<rparr>
                                    else d2)
                          in (Inr \<lparr>hostChanged = True, newHostUid = Some (fst candidate),
                                   roomDeleted = False\<rparr>, d3))
                    else (Inr \<lparr>hostChanged = False, newHostUid = None, roomDeleted = False\<rparr>,
                          d1))))"

text \<open>
  \<open>updateGameSettings\<close>: the host changes the settings of a waiting room. Each number
  goes through \<open>parseInt\<close>, whose result is \<open>NaN\<close> or an integer; every comparison
  with \<open>NaN\<close> is false, so \<open>NaN\<close> is rejected like a value out of range.
\<close>

datatype parsed = NaN | Num int

record settingsUpdate =
  updQuestionsPerPlayer :: "parsed option"
  updTurnTimeoutSec :: "parsed option"
  updStealTimeoutSec :: "parsed option"
  updAllowSteal :: "bool option"
  updBonusForSteal :: "parsed option"

definition inRange :: "parsed \<Rightarrow> int \<Rightarrow> int \<Rightarrow> bool" where
  "inRange v lo hi = (case v of NaN \<Rightarrow> False | Num n \<Rightarrow> lo \<le> n \<and> n \<le> hi)"

definition numOf :: "parsed \<Rightarrow> int" where
  "numOf v = (case v of NaN \<Rightarrow> 0 | Num n \<Rightarrow> n)"

definition rejected :: "parsed option \<Rightarrow> int \<Rightarrow> int \<Rightarrow> bool" where
  "rejected v lo hi = (case v of None \<Rightarrow> False | Some x \<Rightarrow> \<not> inRange x lo hi)"

definition updateGameSettings :: "db \<Rightarrow> uid \<Rightarrow> settingsUpdate \<Rightarrow> (error + gameSettings) \<times> db" where
  "updateGameSettings d u settingsToUpdate =
     (case room d of
        None \<Rightarrow> (Inl (Error ''Room not found.''), d)
      | Some roomData \<Rightarrow>
          if hostUid roomData \<noteq> u
          then (Inl (Error ''Only the host can change game settings.''), d)
          else if state roomData \<noteq> Waiting
          then (Inl (Error ''Game settings can only be changed before the game starts.''), d)
          else if rejected (updQuestionsPerPlayer settingsToUpdate) 1 20
          then (Inl (Error ''Questions per player must be between 1 and 20.''), d)
          else if rejected (updTurnTimeoutSec settingsToUpdate) 5 60
          then (Inl (Error ''Turn timeout must be between 5 and 60 seconds.''), d)
          else if rejected (updStealTimeoutSec settingsToUpdate) 3 30
          then (Inl (Error ''Steal timeout must be between 3 and 30 seconds.''), d)
          else if rejected (updBonusForSteal settingsToUpdate) 0 5
          then (Inl (Error ''Bonus for steal must be between 0 and 5.''), d)
          else
            (let currentSettings = settings roomData;
                 validatedNewSettings =
                   \<lparr>questionsPerPlayer =
                      (case updQuestionsPerPlayer settingsToUpdate of
                         Some v \<Rightarrow> numOf v | None \<Rightarrow> questionsPerPlayer currentSettings),
                    turnTimeoutSec =
                      (case updTurnTimeoutSec settingsToUpdate of
                         Some v \<Rightarrow> numOf v | None \<Rightarrow> turnTimeoutSec currentSettings),
                    stealTimeoutSec =
                      (case updStealTimeoutSec settingsToUpdate of
                         Some v \<Rightarrow> numOf v | None \<Rightarrow> stealTimeoutSec currentSettings),
                    allowSteal =
                      (case updAllowSteal settingsToUpdate of
                         Some b \<Rightarrow> b | None \<Rightarrow> allowSteal currentSettings),
                    bonusForSteal =
                      (case updBonusForSteal settingsToUpdate of
                         Some v \<Rightarrow> numOf v | None \<Rightarrow> bonusForSteal currentSettings)\<rparr>
             in (Inr validatedNewSettings,
                 updateRoom d (\<lambda>r. r\<lparr>settings := validatedNewSettings\<rparr>))))"

section \<open>Socket handlers (roomHandlers.js, gameHandlers.js)\<close>

text \<open>The \<open>leaveRoom\<close> handler: the room service deletes the player document, then the
  game service handles the consequences if the room was active before; an error of
  the room service ends the handler.\<close>

definition leaveRoomHandler :: "db \<Rightarrow> uid \<Rightarrow> db" where
  "leaveRoomHandler d u =
     (if u = [] then d
      else (let roomIsActive = (case room d of None \<Rightarrow> False | Some r \<Rightarrow> state r = Active);
                leaveResult = leaveRoom d u
            in if isl (fst leaveResult) then snd leaveResult
               else if roomIsActive then handlePlayerLeave (snd leaveResult) u
               else snd leaveResult))"

text \<open>The two \<open>disconnecting\<close> handlers: a room that is not active is left for good, an
  active one goes through \<open>cleanupOnDisconnect\<close>.\<close>

definition disconnecting :: "db \<Rightarrow> uid \<Rightarrow> db" where
  "disconnecting d u =
     (if u = [] then d
      else (case room d of
              None \<Rightarrow> d
            | Some roomData \<Rightarrow>
                if state roomData \<noteq> Active then snd (leaveRoom d u)
                else cleanupOnDisconnect d u))"

text \<open>The events a room receives, and the state after each. A \<open>playAgainRequest\<close> that
  completes the quorum calls \<open>startGame\<close> with empty settings: it is a \<open>GameStart\<close> without
  overrides.\<close>

datatype event =
    JoinRoom uid string
  | LeaveRoom uid
  | GameStart uid settingsPatch fetched "nat \<Rightarrow> string list \<Rightarrow> string list"
  | SubmitAnswer uid string int
  | SubmitSteal uid string int
  | Disconnect uid
  | Rejoin uid
  | UpdateSettings uid settingsUpdate
  | TimerFired phase string uid

fun step :: "db \<Rightarrow> event \<Rightarrow> db" where
  "step d (JoinRoom u displayName) = (if u = [] then d else snd (joinRoom d u displayName))"
| "step d (LeaveRoom u) = leaveRoomHandler d u"
| "step d (GameStart u patch fetchResponse shuffle) =
     snd (gameStartHandler d True u patch fetchResponse shuffle)"
| "step d (SubmitAnswer u questionId answerIndex) =
     (if u = [] then d else snd (submitAnswer d u questionId answerIndex False))"
| "step d (SubmitSteal u questionId answerIndex) =
     (if u = [] then d else snd (handleSteal d u questionId answerIndex False))"
| "step d (Disconnect u) = disconnecting d u"
| "step d (Rejoin u) = (if u = [] then d else snd (handleRejoinGame d u))"
| "step d (UpdateSettings u settingsToUpdate) =
     (if u = [] then d else snd (updateGameSettings d u settingsToUpdate))"
| "step d (TimerFired ph questionId u) = gameTimeoutFired d ph questionId u"

definition run :: "db \<Rightarrow> event list \<Rightarrow> db" where
  "run d evs = foldl step d evs"
section \<open>Properties and example runs\<close>

subsection \<open>Stale events\<close>




subsection \<open>Example runs\<close>

text \<open>
  Every example state is the result of a run of events on a room that \<open>createRoom\<close>
  has just made. Alice creates the room \<open>lobby\<close>. The trivia API returns three items,
  the start request asks for one question per player, and the sort leaves the options
  in place.
\<close>

definition lobby :: db where
  "lobby = createRoom ''alice'' ''Alice'' ''QUIZAB''"

definition exampleItems :: "questionItem list" where
  "exampleItems = replicate 3 \<lparr>correct_answer = ''D'', incorrect_answers = [''A'', ''B'', ''C'']\<rparr>"

definition noOverrides :: settingsPatch where
  "noOverrides =
     \<lparr>newQuestionsPerPlayer = None, newTurnTimeoutSec = None, newStealTimeoutSec = None,
      newAllowSteal = None, newBonusForSteal = None\<rparr>"

definition onePerPlayer :: settingsPatch where
  "onePerPlayer = noOverrides\<lparr>newQuestionsPerPlayer := Some 1\<rparr>"

definition keepOrder :: "nat \<Rightarrow> string list \<Rightarrow> string list" where
  "keepOrder idx xs = xs"

definition startEvent :: event where
  "startEvent = GameStart ''alice'' onePerPlayer (Fetched (Some exampleItems)) keepOrder"

text \<open>
  \<open>started\<close>: Bob has joined and Alice has started the game; Alice holds question 0.
  \<open>bobLeft\<close>: Bob has then left, which ends the game for want of players.
  \<open>daveWatching\<close>: Dave has joined the started game, as a spectator.
  \<open>daveWatched\<close>: Dave has then lost his connection and Bob has left.
  \<open>endedWithTwo\<close>: a game of Alice, Bob and Carol; Bob loses his connection, Carol
  leaves (which ends the game), and Bob comes back.
\<close>

definition started :: db where
  "started = run lobby [JoinRoom ''bob'' ''Bob'', startEvent]"

definition bobLeft :: db where
  "bobLeft = run started [LeaveRoom ''bob'']"

definition daveWatching :: db where
  "daveWatching = run started [JoinRoom ''dave'' ''Dave'']"

definition daveWatched :: db where
  "daveWatched = run daveWatching [Disconnect ''dave'', LeaveRoom ''bob'']"

definition endedWithTwo :: db where
  "endedWithTwo =
     run lobby [JoinRoom ''bob'' ''Bob'', JoinRoom ''carol'' ''Carol'', startEvent,
                Disconnect ''bob'', LeaveRoom ''carol'', Rejoin ''bob'']"

text \<open>A lobby fills up: the host \<open>p1\<close>, seven more players, then Zoe.\<close>

definition lobbyJoins :: "event list" where
  "lobbyJoins =
     [JoinRoom ''p2'' ''P2'', JoinRoom ''p3'' ''P3'', JoinRoom ''p4'' ''P4'',
      JoinRoom ''p5'' ''P5'', JoinRoom ''p6'' ''P6'', JoinRoom ''p7'' ''P7'',
      JoinRoom ''p8'' ''P8'', JoinRoom ''zoe'' ''Zoe'']"

subsection \<open>Starting a game\<close>

text \<open>
  What C2 says about a start, in the words of the specification and without the
  functions of the program. \<open>onlinePlayers\<close>: the player documents that are online
  with the player role. \<open>inJoinOrder docs order\<close>: \<open>order\<close> lists the uids of \<open>docs\<close>,
  each document once, by ascending \<open>joinOrder\<close>. \<open>questionsNeeded\<close>: one share of
  questions for each of them, the share being the override of the request, else the
  stored setting, else 5 (a share of 0 counts as absent). \<open>startable\<close>: the room
  exists, at least two such players are present and the question source returned at
  least that many items.
\<close>

definition onlinePlayers :: "db \<Rightarrow> (uid \<times> player) list" where
  "onlinePlayers d = filter (\<lambda>(u, p). online p \<and> role p = Player) (players d)"

definition inJoinOrder :: "(uid \<times> player) list \<Rightarrow> uid list \<Rightarrow> bool" where
  "inJoinOrder docs order =
     (\<exists>ps. mset ps = mset docs \<and> sorted (map (\<lambda>(u, p). joinOrder p) ps) \<and> order = map fst ps)"

definition questionsNeeded :: "db \<Rightarrow> room \<Rightarrow> settingsPatch \<Rightarrow> int" where
  "questionsNeeded d r patch =
     (let stored = (if questionsPerPlayer (settings r) = 0 then 5
                    else questionsPerPlayer (settings r));
          share = (case newQuestionsPerPlayer patch of
                     None \<Rightarrow> stored
                   | Some v \<Rightarrow> if toDouble v = 0 then stored else toDouble v)
      in toDouble (int (length (onlinePlayers d)) * share))"

definition startable :: "db \<Rightarrow> settingsPatch \<Rightarrow> fetched \<Rightarrow> bool" where
  "startable d patch fetchResponse =
     (case room d of
        None \<Rightarrow> False
      | Some r \<Rightarrow>
          2 \<le> length (onlinePlayers d) \<and>
          (case fetchResponse of
             FetchFailed statusText \<Rightarrow> False
           | Fetched None \<Rightarrow> False
           | Fetched (Some questionItems) \<Rightarrow>
               questionsNeeded d r patch \<le> int (length questionItems)))"

subsection \<open>Leaving and rejoining\<close>

definition isLastParticipant :: "db \<Rightarrow> uid \<Rightarrow> bool" where
  "isLastParticipant d u =
     (u \<noteq> [] \<and> room d \<noteq> None \<and> filter (\<lambda>(v, p). v \<noteq> u) (players d) = [])"

definition roleOf :: "db \<Rightarrow> uid \<Rightarrow> role option" where
  "roleOf d u = map_option role (map_of (players d) u)"


definition stateOf :: "db \<Rightarrow> room_state option" where
  "stateOf d = map_option state (room d)"

subsection \<open>The turn order\<close>

text \<open>
  The property of C3: while the room is active, \<open>currentPlayerIndexInOrder\<close> is an
  index of the non-empty \<open>activeTurnOrderUids\<close>.
\<close>

definition indexInBounds :: "db \<Rightarrow> bool" where
  "indexInBounds d =
     (case room d of
        None \<Rightarrow> True
      | Some r \<Rightarrow>
          state r = Active \<longrightarrow>
            activeTurnOrderUids r \<noteq> [] \<and> 0 \<le> currentPlayerIndexInOrder r \<and>
            currentPlayerIndexInOrder r < int (length (activeTurnOrderUids r)))"

text \<open>
  The invariant that carries it through every event: player documents have distinct
  ids, the turn order has no uid twice, and the index is in range while the room is
  active.
\<close>

definition roomInv :: "room \<Rightarrow> bool" where
  "roomInv r =
     (distinct (activeTurnOrderUids r) \<and>
      (state r = Active \<longrightarrow>
         0 \<le> currentPlayerIndexInOrder r \<and>
         currentPlayerIndexInOrder r < int (length (activeTurnOrderUids r))))"

definition turnOrderInv :: "db \<Rightarrow> bool" where
  "turnOrderInv d =
     (distinct (map fst (players d)) \<and>
      (case room d of None \<Rightarrow> True | Some r \<Rightarrow> roomInv r))"

definition orderOf :: "db \<Rightarrow> uid list option" where
  "orderOf d = map_option activeTurnOrderUids (room d)"

subsection \<open>Steal attempts\<close>


definition atFirstQuestion :: "db \<Rightarrow> bool" where
  "atFirstQuestion d =
     (list_all (\<lambda>(u, p). score p = 0) (players d) \<and>
      (case room d of
         None \<Rightarrow> True
       | Some r \<Rightarrow> currentQuestionDbIndex r = 0 \<and> currentStealAttempt r = None))"
section \<open>Basic facts\<close>

lemma toDouble_small: "\<bar>n\<bar> \<le> 9007199254740992 \<Longrightarrow> toDouble n = n"
  by (simp add: toDouble_def)

text \<open>The first integer that is not a double: \<open>2 ^ 53 + 1\<close> rounds to \<open>2 ^ 53\<close>.\<close>

lemma toDouble_rounds: "toDouble 9007199254740993 = 9007199254740992"
  by (simp add: toDouble_def Let_def)

lemma digit_chars:
  "digit_char 0 = CHR ''0''" "digit_char (Suc 0) = CHR ''1''"
  "digit_char (Suc (Suc 0)) = CHR ''2''"
  by (simp_all add: digit_char_def char_of_def bit_iff_odd drop_bit_eq_div)

lemma indexOf_ge: "-1 \<le> indexOf xs x"
  by (induction xs) (auto simp: Let_def)

lemma indexOf_absent: "indexOf xs x = -1 \<longleftrightarrow> x \<notin> set xs"
proof (induction xs)
  case Nil
  show ?case by simp
next
  case (Cons y ys)
  with indexOf_ge[of ys x] show ?case by (auto simp: Let_def)
qed

lemma indexOf_bounds: "x \<in> set xs \<Longrightarrow> 0 \<le> indexOf xs x \<and> indexOf xs x < int (length xs)"
proof (induction xs)
  case Nil
  then show ?case by simp
next
  case (Cons y ys)
  then show ?case using indexOf_absent[of ys x] by (auto simp: Let_def)
qed

lemma map_of_update:
  "map_of (map (\<lambda>(v, p). if v = u then (v, f p) else (v, p)) xs) w =
     (if w = u then map_option f (map_of xs u) else map_of xs w)"
  by (induction xs) auto

section \<open>Facts about the engine\<close>

lemma findNextLoop_found:
  "findNextLoop d order s i k = Inr (Some n, j) \<Longrightarrow>
     0 \<le> j \<and> j < int (length order) \<and> order ! nat j = n \<and> n \<noteq> [] \<and>
     isOnlinePlayer (map_of (players d) n)"
proof (induction k arbitrary: i)
  case 0
  then show ?case by simp
next
  case (Suc k)
  then show ?case
    by (auto simp: Let_def getPlayer_def split: if_splits sum.splits)
qed

lemma findNext_found:
  "findNextOnlinePlayerInFixedOrder d r s = Inr (Some n, j) \<Longrightarrow>
     0 \<le> j \<and> j < int (length (activeTurnOrderUids r)) \<and> activeTurnOrderUids r ! nat j = n \<and>
     n \<noteq> [] \<and> isOnlinePlayer (map_of (players d) n)"
  by (auto simp: findNextOnlinePlayerInFixedOrder_def Let_def split: if_splits
        dest: findNextLoop_found)

section \<open>The turn-order invariant\<close>

text \<open>Each operation of the engine keeps \<open>turnOrderInv\<close>, and none but the start of a game
  and a voluntary leave changes the turn order.\<close>

lemma inv_updateRoom:
  "turnOrderInv d \<Longrightarrow> (\<And>r. room d = Some r \<Longrightarrow> roomInv r \<Longrightarrow> roomInv (f r)) \<Longrightarrow>
   turnOrderInv (updateRoom d f)"
  by (auto simp: turnOrderInv_def updateRoom_def split: option.splits)

lemma roomInv_end [simp]:
  "roomInv r \<Longrightarrow> roomInv (endFault r)"
  "roomInv r \<Longrightarrow> roomInv (endAllPlayed n r)"
  "roomInv r \<Longrightarrow> roomInv (endTooFewPlayers r)"
  "roomInv r \<Longrightarrow> roomInv (endNoQuestion r)"
  by (simp_all add: roomInv_def endFault_def endAllPlayed_def endTooFewPlayers_def endNoQuestion_def)

lemma roomInv_setTurn:
  "roomInv r \<Longrightarrow> 0 \<le> i \<Longrightarrow> i < int (length (activeTurnOrderUids r)) \<Longrightarrow> roomInv (setTurn u i q r)"
  by (simp add: roomInv_def setTurn_def)

lemma order_end [simp]:
  "activeTurnOrderUids (endFault r) = activeTurnOrderUids r"
  "activeTurnOrderUids (endAllPlayed n r) = activeTurnOrderUids r"
  "activeTurnOrderUids (setTurn u i q r) = activeTurnOrderUids r"
  by (simp_all add: endFault_def endAllPlayed_def setTurn_def)

lemma orderOf_updateRoom:
  "(\<And>r. activeTurnOrderUids (f r) = activeTurnOrderUids r) \<Longrightarrow> orderOf (updateRoom d f) = orderOf d"
  by (cases "room d") (simp_all add: orderOf_def updateRoom_def)

lemma players_updateRoom [simp]: "players (updateRoom d f) = players d"
  by (simp add: updateRoom_def)

lemma setup_order: "orderOf (snd (setupNextTurnOrEndGame d nu ni nq)) = orderOf d"
  by (auto simp: setupNextTurnOrEndGame_def orderOf_updateRoom
        split: option.splits sum.splits prod.splits)

lemma setup_inv:
  assumes "turnOrderInv d"
    and "\<And>r. room d = Some r \<Longrightarrow> 0 \<le> ni \<and> ni < int (length (activeTurnOrderUids r))"
  shows "turnOrderInv (snd (setupNextTurnOrEndGame d nu ni nq))"
proof (cases "room d")
  case None
  then show ?thesis using assms(1) by (simp add: setupNextTurnOrEndGame_def)
next
  case (Some r)
  have b: "0 \<le> ni" "ni < int (length (activeTurnOrderUids r))"
    using assms(2)[OF Some] by simp_all
  show ?thesis
    using assms(1) Some b
    by (auto simp: setupNextTurnOrEndGame_def split: option.splits sum.splits prod.splits
          intro!: inv_updateRoom roomInv_setTurn dest: findNext_found)
qed

lemma snd_case_reply [simp]:
  "snd (case x of (Inl e, d') \<Rightarrow> (Inl e, d') | (Inr ph, d') \<Rightarrow> (Inr (g ph), d')) = snd x"
  by (cases x) (auto split: sum.splits)

lemma keys_update [simp]:
  "map fst (map (\<lambda>(v, p). if v = u then (v, f p) else (v, p)) xs) = map fst xs"
  by (induction xs) auto

lemma inv_cong:
  "map fst (players d') = map fst (players d) \<Longrightarrow> room d' = room d \<Longrightarrow>
   turnOrderInv d' = turnOrderInv d"
  by (simp add: turnOrderInv_def)

lemma increment_frame:
  "incrementPlayerScore d u n = Inr d1 \<Longrightarrow>
   room d1 = room d \<and> map fst (players d1) = map fst (players d)"
  by (auto simp: incrementPlayerScore_def split: if_splits)

lemma updatePlayer_frame:
  "updatePlayer d u f = Inr d1 \<Longrightarrow>
   room d1 = room d \<and> map fst (players d1) = map fst (players d)"
  by (auto simp: updatePlayer_def split: if_splits)

lemma advance_order:
  "orderOf (snd (advanceAfterAnswer d roomData u c)) = orderOf d"
  by (auto simp: advanceAfterAnswer_def setup_order orderOf_updateRoom
        split: sum.splits option.splits)

lemma advance_inv:
  assumes "turnOrderInv d" "orderOf d = Some (activeTurnOrderUids roomData)"
  shows "turnOrderInv (snd (advanceAfterAnswer d roomData u c))"
proof -
  have b: "\<And>n i r. findNextOnlinePlayerInFixedOrder d roomData (Some u) = Inr (Some n, i) \<Longrightarrow>
      room d = Some r \<Longrightarrow> 0 \<le> i \<and> i < int (length (activeTurnOrderUids r))"
    using assms(2) by (auto simp: orderOf_def dest: findNext_found)
  show ?thesis
    using assms(1) b
    by (auto simp: advanceAfterAnswer_def split: sum.splits option.splits
          intro!: inv_updateRoom setup_inv)
qed

lemma increment_order: "incrementPlayerScore d u n = Inr d1 \<Longrightarrow> orderOf d1 = orderOf d"
  by (auto simp: orderOf_def dest: increment_frame)

lemma increment_inv: "incrementPlayerScore d u n = Inr d1 \<Longrightarrow> turnOrderInv d1 = turnOrderInv d"
  by (rule inv_cong) (auto dest: increment_frame)

lemma updatePlayer_order: "updatePlayer d u f = Inr d1 \<Longrightarrow> orderOf d1 = orderOf d"
  by (auto simp: orderOf_def dest: updatePlayer_frame)

lemma updatePlayer_inv: "updatePlayer d u f = Inr d1 \<Longrightarrow> turnOrderInv d1 = turnOrderInv d"
  by (rule inv_cong) (auto dest: updatePlayer_frame)

lemma setup_inv_o:
  "turnOrderInv d \<Longrightarrow> orderOf d = Some os \<Longrightarrow> 0 \<le> ni \<Longrightarrow> ni < int (length os) \<Longrightarrow>
   turnOrderInv (snd (setupNextTurnOrEndGame d nu ni nq))"
  by (rule setup_inv) (auto simp: orderOf_def)

lemma processAnswer_order:
  "orderOf (snd (processAnswer d roomData q u a t)) = orderOf d"
  by (auto simp: processAnswer_def Let_def advance_order orderOf_updateRoom
        split: sum.splits option.splits if_splits dest: increment_order)

lemma processAnswer_inv:
  assumes "turnOrderInv d" "orderOf d = Some (activeTurnOrderUids roomData)"
  shows "turnOrderInv (snd (processAnswer d roomData q u a t))"
  using assms
  by (auto simp: processAnswer_def Let_def increment_inv increment_order
        split: sum.splits option.splits if_splits
        intro!: advance_inv inv_updateRoom simp: roomInv_def)

lemma submitAnswer_order:
  "orderOf (snd (submitAnswer d u qn a t)) = orderOf d"
  by (auto simp: submitAnswer_def processAnswer_order split: option.splits sum.splits)

lemma submitAnswer_inv:
  "turnOrderInv d \<Longrightarrow> turnOrderInv (snd (submitAnswer d u qn a t))"
  by (auto simp: submitAnswer_def orderOf_def split: option.splits sum.splits
        intro!: processAnswer_inv)


lemma processSteal_order:
  "orderOf (snd (processSteal d roomData q u a t)) = orderOf d"
  by (auto simp: processSteal_def Let_def setup_order orderOf_updateRoom
        split: sum.splits option.splits if_splits dest: increment_order)

lemma processSteal_inv:
  assumes "turnOrderInv d" "orderOf d = Some (activeTurnOrderUids roomData)"
  shows "turnOrderInv (snd (processSteal d roomData q u a t))"
proof (cases "indexOf (activeTurnOrderUids roomData) u = -1")
  case True
  then show ?thesis
    using assms(1)
    by (auto simp: processSteal_def Let_def increment_inv split: sum.splits
          intro!: inv_updateRoom)
next
  case False
  then have b: "0 \<le> indexOf (activeTurnOrderUids roomData) u"
    "indexOf (activeTurnOrderUids roomData) u < int (length (activeTurnOrderUids roomData))"
    using indexOf_bounds[of u "activeTurnOrderUids roomData"] by (auto simp: indexOf_absent)
  have s: "\<And>d1. turnOrderInv d1 \<Longrightarrow> orderOf d1 = orderOf d \<Longrightarrow>
     turnOrderInv (snd (setupNextTurnOrEndGame d1 u (indexOf (activeTurnOrderUids roomData) u)
                          (currentQuestionDbIndex roomData + 1)))"
    using assms(2) b by (auto intro: setup_inv_o)
  show ?thesis
    using assms(1) False
    by (auto simp: processSteal_def Let_def increment_inv split: sum.splits
          intro!: s dest: increment_order)
qed

lemma handleSteal_order:
  "orderOf (snd (handleSteal d u qn a t)) = orderOf d"
  by (auto simp: handleSteal_def processSteal_order split: option.splits sum.splits)

lemma handleSteal_inv:
  "turnOrderInv d \<Longrightarrow> turnOrderInv (snd (handleSteal d u qn a t))"
  by (auto simp: handleSteal_def orderOf_def split: option.splits sum.splits
        intro!: processSteal_inv)

lemma timeoutRecovery_inv:
  assumes "turnOrderInv d" "orderOf d = Some (activeTurnOrderUids roomData)"
  shows "turnOrderInv (timeoutRecovery d roomData ph u)"
proof (cases ph)
  case TurnPhase
  have s: "\<And>n i. findNextOnlinePlayerInFixedOrder d roomData (Some u) = Inr (Some n, i) \<Longrightarrow>
     turnOrderInv (snd (setupNextTurnOrEndGame d n i (currentQuestionDbIndex roomData + 1)))"
    using assms by (auto intro!: setup_inv_o dest: findNext_found)
  show ?thesis
    using assms(1) TurnPhase
    by (auto simp: timeoutRecovery_def split: sum.splits option.splits
          intro!: inv_updateRoom s)
next
  case StealPhase
  show ?thesis
  proof (cases "indexOf (activeTurnOrderUids roomData) u = -1")
    case True
    then show ?thesis
      using assms(1) StealPhase by (auto simp: timeoutRecovery_def intro!: inv_updateRoom)
  next
    case False
    then have b: "0 \<le> indexOf (activeTurnOrderUids roomData) u"
      "indexOf (activeTurnOrderUids roomData) u < int (length (activeTurnOrderUids roomData))"
      using indexOf_bounds[of u "activeTurnOrderUids roomData"] by (auto simp: indexOf_absent)
    show ?thesis
      using assms StealPhase b
      by (auto simp: timeoutRecovery_def intro!: inv_updateRoom setup_inv_o)
  qed
qed

lemma gameTimeoutFired_inv:
  assumes "turnOrderInv d"
  shows "turnOrderInv (gameTimeoutFired d ph qn u)"
proof (cases "room d")
  case None
  then show ?thesis using assms by (simp add: gameTimeoutFired_def)
next
  case (Some roomData)
  have o: "orderOf d = Some (activeTurnOrderUids roomData)"
    using Some by (simp add: orderOf_def)
  have a: "\<And>x d' qi. submitAnswer d u qi (-1) True = (x, d') \<Longrightarrow>
      turnOrderInv d' \<and> orderOf d' = Some (activeTurnOrderUids roomData)"
  proof -
    fix x d' qi
    assume "submitAnswer d u qi (-1) True = (x, d')"
    then show "turnOrderInv d' \<and> orderOf d' = Some (activeTurnOrderUids roomData)"
      using submitAnswer_inv[OF assms, of u qi "-1" True]
        submitAnswer_order[of d u qi "-1" True] o
      by simp
  qed
  have h: "\<And>x d' qi. handleSteal d u qi (-1) True = (x, d') \<Longrightarrow>
      turnOrderInv d' \<and> orderOf d' = Some (activeTurnOrderUids roomData)"
  proof -
    fix x d' qi
    assume "handleSteal d u qi (-1) True = (x, d')"
    then show "turnOrderInv d' \<and> orderOf d' = Some (activeTurnOrderUids roomData)"
      using handleSteal_inv[OF assms, of u qi "-1" True]
        handleSteal_order[of d u qi "-1" True] o
      by simp
  qed
  show ?thesis
    using assms Some
    by (auto simp: gameTimeoutFired_def split: sum.splits option.splits phase.splits prod.splits
          intro!: timeoutRecovery_inv dest: a h)
qed

lemma advanceWithoutQuestion_inv:
  assumes "turnOrderInv d" "orderOf d = Some (activeTurnOrderUids roomData)"
  shows "turnOrderInv (advanceWithoutQuestion d roomData s)"
proof -
  have s: "\<And>n i. findNextOnlinePlayerInFixedOrder d roomData s = Inr (Some n, i) \<Longrightarrow>
     turnOrderInv (snd (setupNextTurnOrEndGame d n i (currentQuestionDbIndex roomData + 1)))"
    using assms by (auto intro!: setup_inv_o dest: findNext_found)
  show ?thesis
    using assms(1)
    by (auto simp: advanceWithoutQuestion_def split: sum.splits option.splits intro!: s)
qed

lemma cleanupOnDisconnect_inv:
  assumes "turnOrderInv d"
  shows "turnOrderInv (cleanupOnDisconnect d u)"
proof (cases "room d")
  case None
  then show ?thesis using assms by (simp add: cleanupOnDisconnect_def)
next
  case (Some roomData)
  have o: "orderOf d = Some (activeTurnOrderUids roomData)"
    using Some by (simp add: orderOf_def)
  have f: "\<And>d1 g. updatePlayer d u g = Inr d1 \<Longrightarrow>
      turnOrderInv d1 \<and> orderOf d1 = Some (activeTurnOrderUids roomData)"
    using assms o by (auto simp: updatePlayer_inv dest: updatePlayer_order)
  show ?thesis
    using assms Some
    by (auto simp: cleanupOnDisconnect_def split: sum.splits option.splits
          intro!: submitAnswer_inv handleSteal_inv advanceWithoutQuestion_inv dest: f)
qed
lemma countOnline_le: "countOnlinePlayers d xs = Inr n \<Longrightarrow> n \<le> length xs"
  by (induction xs arbitrary: n) (auto split: sum.splits if_splits)

lemma length_filter_out:
  "distinct xs \<Longrightarrow> u \<in> set xs \<Longrightarrow> Suc (length (filter (\<lambda>x. x \<noteq> u) xs)) = length xs"
proof (induction xs)
  case Nil
  then show ?case by simp
next
  case (Cons y ys)
  show ?case
  proof (cases "y = u")
    case True
    then have "filter (\<lambda>x. x \<noteq> u) ys = ys"
      using Cons.prems(1) by (auto simp: filter_id_conv)
    then show ?thesis using True by simp
  next
    case False
    then show ?thesis using Cons by auto
  qed
qed

lemma index_after_leave:
  assumes "distinct order" "u \<in> set order" "0 \<le> c" "c < int (length order)"
    "filter (\<lambda>x. x \<noteq> u) order \<noteq> []"
  shows "0 \<le> (if indexOf order u \<noteq> -1 \<and> indexOf order u \<le> c \<and> 0 < c then c - 1 else c) \<and>
         (if indexOf order u \<noteq> -1 \<and> indexOf order u \<le> c \<and> 0 < c then c - 1 else c)
           < int (length (filter (\<lambda>x. x \<noteq> u) order))"
proof -
  define m where "m = int (length (filter (\<lambda>x. x \<noteq> u) order))"
  define j where "j = indexOf order u"
  have l: "m = int (length order) - 1"
    unfolding m_def using length_filter_out[OF assms(1,2)] by linarith
  have p: "1 \<le> m"
    unfolding m_def using assms(5) by (cases "filter (\<lambda>x. x \<noteq> u) order") simp_all
  have b: "0 \<le> j" "j < int (length order)"
    unfolding j_def using indexOf_bounds[OF assms(2)] by simp_all
  have "0 \<le> (if j \<noteq> -1 \<and> j \<le> c \<and> 0 < c then c - 1 else c) \<and>
        (if j \<noteq> -1 \<and> j \<le> c \<and> 0 < c then c - 1 else c) < m"
    using l p b assms(3,4) by auto
  then show ?thesis
    unfolding m_def j_def .
qed

lemma afterTurnOrderUpdate_inv:
  assumes "distinct (map fst (players d))" "room d = Some r" "distinct (activeTurnOrderUids r)"
    "activeTurnOrderUids r \<noteq> [] \<Longrightarrow> roomInv r"
    "activeTurnOrderUids roomData = activeTurnOrderUids r"
  shows "turnOrderInv (afterTurnOrderUpdate d roomData u)"
proof (cases "activeTurnOrderUids r = []")
  case True
  then show ?thesis
    using assms(1,2,3,5)
    by (simp add: afterTurnOrderUpdate_def turnOrderInv_def updateRoom_def roomInv_def
          endTooFewPlayers_def)
next
  case False
  then have i: "turnOrderInv d"
    using assms(1,2,4) by (simp add: turnOrderInv_def)
  show ?thesis
    using i
    by (auto simp: afterTurnOrderUpdate_def split: sum.splits option.splits
          intro!: inv_updateRoom submitAnswer_inv handleSteal_inv)
qed

lemma handlePlayerLeave_inv:
  assumes "turnOrderInv d"
  shows "turnOrderInv (handlePlayerLeave d u)"
proof (cases "room d")
  case None
  then show ?thesis using assms by (simp add: handlePlayerLeave_def)
next
  case (Some r)
  note r = Some
  show ?thesis
  proof (cases "state r = Active")
    case False
    then show ?thesis using assms r by (simp add: handlePlayerLeave_def)
  next
    case True
    have ri: "roomInv r" and dk: "distinct (map fst (players d))"
      using assms r by (simp_all add: turnOrderInv_def)
    have step: "turnOrderInv
        (let order = activeTurnOrderUids r;
             newActiveTurnOrderUids = filter (\<lambda>playerId. playerId \<noteq> u) order;
             oldIndexOfLeavingPlayer = indexOf order u;
             newPlayerIndexInOrder =
               (if oldIndexOfLeavingPlayer \<noteq> -1
                   \<and> oldIndexOfLeavingPlayer \<le> currentPlayerIndexInOrder r
                   \<and> 0 < currentPlayerIndexInOrder r
                then currentPlayerIndexInOrder r - 1
                else currentPlayerIndexInOrder r)
         in if length newActiveTurnOrderUids < length order
            then afterTurnOrderUpdate
                   (updateRoom d1
                      (\<lambda>r. r\<lparr>activeTurnOrderUids := newActiveTurnOrderUids,
                              currentPlayerIndexInOrder := newPlayerIndexInOrder\<rparr>))
                   (r\<lparr>activeTurnOrderUids := newActiveTurnOrderUids,
                       currentPlayerIndexInOrder := newPlayerIndexInOrder\<rparr>)
                   u
            else afterTurnOrderUpdate d1 r u)"
      if d1: "room d1 = room d" "map fst (players d1) = map fst (players d)" for d1
    proof (cases "u \<in> set (activeTurnOrderUids r)")
      case False
      then have "filter (\<lambda>playerId. playerId \<noteq> u) (activeTurnOrderUids r) = activeTurnOrderUids r"
        by (auto simp: filter_id_conv)
      then show ?thesis
        using d1 r ri dk
        by (auto simp: Let_def roomInv_def intro!: afterTurnOrderUpdate_inv[where r = r])
    next
      case u: True
      have lt: "length (filter (\<lambda>playerId. playerId \<noteq> u) (activeTurnOrderUids r))
                  < length (activeTurnOrderUids r)"
        using length_filter_out[of "activeTurnOrderUids r" u] ri u by (simp add: roomInv_def)
      have c: "0 \<le> currentPlayerIndexInOrder r"
        "currentPlayerIndexInOrder r < int (length (activeTurnOrderUids r))"
        using ri True by (simp_all add: roomInv_def)
      have di: "distinct (activeTurnOrderUids r)"
        using ri by (simp add: roomInv_def)
      show ?thesis
        unfolding Let_def
        using lt d1 r dk di True index_after_leave[OF di u c]
        by (auto simp: updateRoom_def roomInv_def
              intro!: afterTurnOrderUpdate_inv
                [where r = "r\<lparr>activeTurnOrderUids := filter (\<lambda>playerId. playerId \<noteq> u) (activeTurnOrderUids r),
                     currentPlayerIndexInOrder :=
                       (if indexOf (activeTurnOrderUids r) u \<noteq> -1
                           \<and> indexOf (activeTurnOrderUids r) u \<le> currentPlayerIndexInOrder r
                           \<and> 0 < currentPlayerIndexInOrder r
                        then currentPlayerIndexInOrder r - 1
                        else currentPlayerIndexInOrder r)\<rparr>"])
    qed
    show ?thesis
      using assms r True step[of d] 
      by (auto simp: handlePlayerLeave_def split: sum.splits option.splits
            dest: updatePlayer_frame intro!: step)
  qed
qed

lemma keys_filter: "distinct (map fst xs) \<Longrightarrow> distinct (map fst (filter P xs))"
  by (simp add: distinct_map_filter)

lemma keys_update_comp [simp]:
  "map (fst \<circ> (\<lambda>(v, p). if v = u then (v, f p) else (v, p))) xs = map fst xs"
  by (induction xs) auto

lemma leaveRoom_inv:
  assumes "turnOrderInv d"
  shows "turnOrderInv (snd (leaveRoom d u))"
  using assms
  by (auto simp: leaveRoom_def deletePlayer_def deleteRoom_def turnOrderInv_def updateRoom_def
        roomInv_def Let_def keys_filter
        split: option.splits sum.splits list.splits if_splits)

lemma joinRoom_inv:
  assumes "turnOrderInv d"
  shows "turnOrderInv (snd (joinRoom d u n))"
  using assms
  by (auto simp: joinRoom_def addPlayer_def turnOrderInv_def Let_def map_of_eq_None_iff
        split: option.splits)

lemma keys_reset [simp]:
  "map fst (map (\<lambda>(v, p). if P v then (v, f p) else (v, p)) xs) = map fst xs"
  "map (fst \<circ> (\<lambda>(v, p). if P v then (v, f p) else (v, p))) xs = map fst xs"
  by (induction xs) auto

lemma keys_sorted: "distinct (map fst (sort_key f xs)) = distinct (map fst xs)"
proof -
  have "mset (map fst (sort_key f xs)) = mset (map fst xs)"
    by simp
  then show ?thesis
    by (rule mset_eq_imp_distinct_iff)
qed

lemma startGame_inv:
  assumes "turnOrderInv d"
  shows "turnOrderInv (snd (startGame d patch fr sh))"
proof -
  have k: "distinct (map fst (filter isParticipating (getPlayersByRoomSorted d)))"
    using assms by (simp add: turnOrderInv_def getPlayersByRoomSorted_def keys_filter keys_sorted)
  show ?thesis
    using assms k
    by (auto simp: startGame_def Let_def turnOrderInv_def roomInv_def getAllQuestions_def
          split: option.splits fetched.splits sum.splits)
qed

lemma handleRejoinGame_inv:
  assumes "turnOrderInv d"
  shows "turnOrderInv (snd (handleRejoinGame d u))"
  using assms
  by (auto simp: handleRejoinGame_def Let_def updatePlayer_inv
        split: option.splits sum.splits)

lemma updateGameSettings_inv:
  assumes "turnOrderInv d"
  shows "turnOrderInv (snd (updateGameSettings d u s))"
  using assms
  by (auto simp: updateGameSettings_def Let_def roomInv_def intro!: inv_updateRoom
        split: option.splits)

lemma step_inv: "turnOrderInv d \<Longrightarrow> turnOrderInv (step d ev)"
  by (cases ev)
    (auto simp: leaveRoomHandler_def disconnecting_def gameStartHandler_def Let_def
       intro!: joinRoom_inv leaveRoom_inv handlePlayerLeave_inv startGame_inv submitAnswer_inv
         handleSteal_inv cleanupOnDisconnect_inv handleRejoinGame_inv updateGameSettings_inv
         gameTimeoutFired_inv
       split: option.splits)

lemma run_inv: "turnOrderInv d \<Longrightarrow> turnOrderInv (run d evs)"
  unfolding run_def by (induction evs arbitrary: d) (simp_all add: step_inv)

lemma createRoom_inv: "turnOrderInv (createRoom u n c)"
  by (simp add: createRoom_def turnOrderInv_def roomInv_def)

lemma inv_bounds: "turnOrderInv d \<Longrightarrow> indexInBounds d"
  by (auto simp: turnOrderInv_def indexInBounds_def roomInv_def split: option.splits)

lemma scores_zero:
  "list_all (\<lambda>(u, p). score p = 0) xs = (\<forall>u p. (u, p) \<in> set xs \<longrightarrow> score p = 0)"
  by (auto simp: list_all_iff)

lemma afq_submitAnswer: "atFirstQuestion d \<Longrightarrow> snd (submitAnswer d u q a t) = d"
  by (auto simp: atFirstQuestion_def submitAnswer_def getQuestion_def split: option.splits)

lemma afq_handleSteal: "atFirstQuestion d \<Longrightarrow> snd (handleSteal d u q a t) = d"
  by (auto simp: atFirstQuestion_def handleSteal_def split: option.splits)

lemma afq_timer: "atFirstQuestion d \<Longrightarrow> gameTimeoutFired d ph q u = d"
  by (auto simp: atFirstQuestion_def gameTimeoutFired_def getQuestion_def split: option.splits)

lemma afq_updatePlayer:
  "atFirstQuestion d \<Longrightarrow> updatePlayer d u f = Inr d1 \<Longrightarrow> (\<And>p. score (f p) = score p) \<Longrightarrow>
   atFirstQuestion d1"
  by (auto simp: atFirstQuestion_def updatePlayer_def scores_zero split: if_splits)

lemma afq_cleanup: "atFirstQuestion d \<Longrightarrow> atFirstQuestion (cleanupOnDisconnect d u)"
proof -
  assume a: "atFirstQuestion d"
  have f: "\<And>d1. updatePlayer d u (\<lambda>p. p\<lparr>online := False\<rparr>) = Inr d1 \<Longrightarrow>
     atFirstQuestion d1 \<and> room d1 = room d"
    using a by (auto intro: afq_updatePlayer dest: updatePlayer_frame)
  show ?thesis
    using a
    by (auto simp: cleanupOnDisconnect_def getQuestion_def split: option.splits sum.splits
          dest!: f simp: atFirstQuestion_def)
qed

lemma afq_updateRoom:
  "atFirstQuestion d \<Longrightarrow>
   (\<And>r. room d = Some r \<Longrightarrow>
      currentQuestionDbIndex (g r) = 0 \<and> currentStealAttempt (g r) = None) \<Longrightarrow>
   atFirstQuestion (updateRoom d g)"
  by (auto simp: atFirstQuestion_def updateRoom_def split: option.splits)

lemma afq_after:
  "atFirstQuestion d \<Longrightarrow> currentQuestionDbIndex roomData = 0 \<Longrightarrow>
   atFirstQuestion (afterTurnOrderUpdate d roomData u)"
proof -
  assume a: "atFirstQuestion d" and z: "currentQuestionDbIndex roomData = 0"
  have "atFirstQuestion (updateRoom d endTooFewPlayers)"
    using a by (auto simp: atFirstQuestion_def updateRoom_def endTooFewPlayers_def
                  split: option.splits)
  then show ?thesis
    using a z by (auto simp: afterTurnOrderUpdate_def getQuestion_def split: sum.splits)
qed

lemma afq_playerLeave: "atFirstQuestion d \<Longrightarrow> atFirstQuestion (handlePlayerLeave d u)"
proof -
  assume a: "atFirstQuestion d"
  have c: "\<And>r. room d = Some r \<Longrightarrow>
     currentQuestionDbIndex r = 0 \<and> currentStealAttempt r = None"
    using a by (simp add: atFirstQuestion_def)
  have f: "\<And>d1. updatePlayer d u (\<lambda>p. p\<lparr>online := False\<rparr>) = Inr d1 \<Longrightarrow>
     atFirstQuestion d1 \<and> room d1 = room d"
    using a by (auto intro: afq_updatePlayer dest: updatePlayer_frame)
  show ?thesis
    using a c
    by (auto simp: handlePlayerLeave_def Let_def split: option.splits sum.splits
          dest!: f intro!: afq_after afq_updateRoom)
qed

lemma afq_leaveRoom: "atFirstQuestion d \<Longrightarrow> atFirstQuestion (snd (leaveRoom d u))"
  by (auto simp: leaveRoom_def deletePlayer_def deleteRoom_def atFirstQuestion_def updateRoom_def
        Let_def scores_zero
        split: option.splits sum.splits list.splits if_splits)

lemma afq_joinRoom: "atFirstQuestion d \<Longrightarrow> atFirstQuestion (snd (joinRoom d u n))"
  by (auto simp: joinRoom_def addPlayer_def atFirstQuestion_def Let_def scores_zero
        split: option.splits if_splits)

lemma afq_startGame: "atFirstQuestion d \<Longrightarrow> atFirstQuestion (snd (startGame d patch fr sh))"
  by (auto simp: startGame_def Let_def atFirstQuestion_def getAllQuestions_def scores_zero
        split: option.splits fetched.splits sum.splits if_splits)

lemma afq_rejoin: "atFirstQuestion d \<Longrightarrow> atFirstQuestion (snd (handleRejoinGame d u))"
  by (auto simp: handleRejoinGame_def Let_def split: option.splits sum.splits
        intro: afq_updatePlayer)

lemma afq_settings: "atFirstQuestion d \<Longrightarrow> atFirstQuestion (snd (updateGameSettings d u s))"
  by (auto simp: updateGameSettings_def Let_def atFirstQuestion_def updateRoom_def
        split: option.splits)

lemma afq_step: "atFirstQuestion d \<Longrightarrow> atFirstQuestion (step d ev)"
  by (cases ev)
    (auto simp: leaveRoomHandler_def disconnecting_def gameStartHandler_def Let_def
       afq_submitAnswer afq_handleSteal afq_timer
       intro!: afq_joinRoom afq_leaveRoom afq_playerLeave afq_startGame afq_cleanup afq_rejoin
         afq_settings
       split: option.splits)

lemma afq_run: "atFirstQuestion d \<Longrightarrow> atFirstQuestion (run d evs)"
  unfolding run_def by (induction evs arbitrary: d) (simp_all add: afq_step)

lemma afq_createRoom: "atFirstQuestion (createRoom u n c)"
  by (simp add: createRoom_def atFirstQuestion_def)

lemma afq_reachable: "atFirstQuestion (run (createRoom u n c) evs)"
  by (intro afq_run afq_createRoom)

section \<open>The example runs, evaluated\<close>

lemmas model_defs =
  run_def createRoom_def joinRoom_def addPlayer_def countRole_def
  MAX_TOTAL_USERS_IN_ROOM_def MAX_PLAYERS_ROLE_COUNT_def MAX_SPECTATORS_COUNT_def
  gameStartHandler_def startGame_def getPlayersByRoomSorted_def isParticipating_def
  mergeSettings_def orElse_def fromRequest_def jsMul_def jsAdd_def toQuestion_def keepOrder_def
  getAllQuestions_def getQuestion_def getPlayer_def updatePlayer_def updateRoom_def
  defaultSettings_def digit_chars enumerate_eq_zip toDouble_small

lemmas leave_defs =
  leaveRoomHandler_def leaveRoom_def deletePlayer_def deleteRoom_def nextHostCandidate_def
  handlePlayerLeave_def afterTurnOrderUpdate_def isOnlinePlayer_def endTooFewPlayers_def
  disconnecting_def cleanupOnDisconnect_def handleRejoinGame_def rejoinRole_def
  turnSlotPassed_def

lemmas example_defs =
  lobby_def exampleItems_def noOverrides_def onePerPlayer_def startEvent_def

lemma started_eq:
  "started =
     \<lparr>room = Some \<lparr>code = ''QUIZAB'', hostUid = ''alice'', state = Active, questionCount = 2,
                    currentQuestionDbIndex = 0, currentTurnUid = Some ''alice'',
                    activeTurnOrderUids = [''alice'', ''bob''], currentPlayerIndexInOrder = 0,
                    currentStealAttempt = None,
                    settings = \<lparr>questionsPerPlayer = 1, turnTimeoutSec = 30,
                                stealTimeoutSec = 15, allowSteal = True, bonusForSteal = 1\<rparr>\<rparr>,
      players = [(''alice'', \<lparr>name = ''Alice'', joinOrder = 1, score = 0, online = True, role = Player\<rparr>),
                 (''bob'', \<lparr>name = ''Bob'', joinOrder = 2, score = 0, online = True, role = Player\<rparr>)],
      questions =
        [0 \<mapsto> \<lparr>qid = ''0'', options = [''A'', ''B'', ''C'', ''D''], correctIndex = 3\<rparr>,
         1 \<mapsto> \<lparr>qid = ''1'', options = [''A'', ''B'', ''C'', ''D''], correctIndex = 3\<rparr>,
         2 \<mapsto> \<lparr>qid = ''2'', options = [''A'', ''B'', ''C'', ''D''], correctIndex = 3\<rparr>]\<rparr>"
  by (simp add: started_def model_defs example_defs numeral_3_eq_3)

lemma bobLeft_eq:
  "bobLeft =
     started\<lparr>room := map_option (\<lambda>r. r\<lparr>state := Ended, currentTurnUid := None,
                  activeTurnOrderUids := [''alice''], currentPlayerIndexInOrder := -1\<rparr>) (room started),
             players := [(''alice'', \<lparr>name = ''Alice'', joinOrder = 1, score = 0, online = True, role = Player\<rparr>)]\<rparr>"
  unfolding bobLeft_def started_eq
  by (simp add: model_defs leave_defs)

lemma daveWatching_eq:
  "daveWatching =
     started\<lparr>players := players started @
       [(''dave'', \<lparr>name = ''Dave'', joinOrder = 3, score = 0, online = True, role = Spectator\<rparr>)]\<rparr>"
  unfolding daveWatching_def started_eq
  by (simp add: model_defs leave_defs)

lemma daveWatched_eq:
  "daveWatched =
     started\<lparr>room := map_option (\<lambda>r. r\<lparr>state := Ended, currentTurnUid := None,
                  activeTurnOrderUids := [''alice''], currentPlayerIndexInOrder := -1\<rparr>) (room started),
             players :=
               [(''alice'', \<lparr>name = ''Alice'', joinOrder = 1, score = 0, online = True, role = Player\<rparr>),
                (''dave'', \<lparr>name = ''Dave'', joinOrder = 3, score = 0, online = False, role = Spectator\<rparr>)]\<rparr>"
  unfolding daveWatched_def daveWatching_eq started_eq
  by (simp add: model_defs leave_defs)

lemma endedWithTwo_eq:
  "endedWithTwo =
     \<lparr>room = Some \<lparr>code = ''QUIZAB'', hostUid = ''alice'', state = Ended, questionCount = 3,
                    currentQuestionDbIndex = 0, currentTurnUid = None,
                    activeTurnOrderUids = [''alice'', ''bob''], currentPlayerIndexInOrder = -1,
                    currentStealAttempt = None,
                    settings = \<lparr>questionsPerPlayer = 1, turnTimeoutSec = 30,
                                stealTimeoutSec = 15, allowSteal = True, bonusForSteal = 1\<rparr>\<rparr>,
      players = [(''alice'', \<lparr>name = ''Alice'', joinOrder = 1, score = 0, online = True, role = Player\<rparr>),
                 (''bob'', \<lparr>name = ''Bob'', joinOrder = 2, score = 0, online = True, role = Player\<rparr>)],
      questions = questions started\<rparr>"
  unfolding endedWithTwo_def started_eq
  by (simp add: model_defs leave_defs example_defs numeral_3_eq_3)

section \<open>Stale events (C1)\<close>




section \<open>Starting a game (C2)\<close>

text \<open>
  C2 as stated: \<open>startGame\<close> makes a room active only from the waiting state. It
  fails: \<open>startGame\<close> never reads the state of the room. In \<open>endedWithTwo\<close> the game has
  ended and Alice, the host, and Bob are online; Alice sends \<open>game:start\<close> and the room
  becomes active again. (The play-again quorum calls the same function on an ended
  room.)
\<close>

theorem ended_room_is_restarted:
  "stateOf endedWithTwo = Some Ended \<and>
   stateOf (run endedWithTwo [startEvent]) = Some Active"
  unfolding endedWithTwo_eq started_eq
  by (simp add: stateOf_def model_defs example_defs)

text \<open>
  What \<open>startGame\<close> reads, against the words of C2: the participants it filters from
  the sorted player documents are the online players, each once, by ascending
  \<open>joinOrder\<close>, and the number of questions it asks for is \<open>questionsNeeded\<close>.
\<close>

lemma sorted_by_join_order:
  "sorted (map (\<lambda>(u, p). (joinOrder p, u)) xs) \<Longrightarrow> sorted (map (\<lambda>(u, p). joinOrder p) xs)"
  by (induction xs) (auto simp: less_eq_prod_def)

lemma participating_mset:
  "mset (filter isParticipating (getPlayersByRoomSorted d)) = mset (onlinePlayers d)"
proof -
  have "isParticipating = (\<lambda>(u, p). online p \<and> role p = Player)"
    by (auto simp: isParticipating_def fun_eq_iff)
  then show ?thesis
    by (simp add: getPlayersByRoomSorted_def onlinePlayers_def)
qed

lemma participating_sorted:
  "sorted (map (\<lambda>(u, p). joinOrder p) (filter isParticipating (getPlayersByRoomSorted d)))"
  unfolding getPlayersByRoomSorted_def
  by (intro sorted_by_join_order sorted_filter sorted_sort_key)

lemma participating_length:
  "length (filter isParticipating (getPlayersByRoomSorted d)) = length (onlinePlayers d)"
  using participating_mset[of d] by (metis size_mset)

lemma participating_in_join_order:
  "inJoinOrder (onlinePlayers d) (map fst (filter isParticipating (getPlayersByRoomSorted d)))"
  unfolding inJoinOrder_def
  using participating_mset participating_sorted by blast

lemma questionsNeeded_eq:
  "questionsNeeded d r patch =
     jsMul (int (length (filter isParticipating (getPlayersByRoomSorted d))))
       (questionsPerPlayer (mergeSettings patch (settings r)))"
  by (auto simp: questionsNeeded_def jsMul_def mergeSettings_def orElse_def fromRequest_def participating_length
        Let_def split: option.splits)

text \<open>
  C2, amended: \<open>startGame\<close> makes the room active, with the online player-role
  participants in join order as the turn order, the first of them holding question 0
  and no steal pending, exactly when the room exists, at least two such participants
  are present and the question source returned enough questions; the state of the room
  before is not a condition. A request that fails one of these checks changes nothing.
\<close>

theorem startGame_transition:
  "(startable d patch fetchResponse \<longrightarrow>
      (\<exists>r'. room (snd (startGame d patch fetchResponse shuffle)) = Some r' \<and>
            state r' = Active \<and>
            inJoinOrder (onlinePlayers d) (activeTurnOrderUids r') \<and>
            currentTurnUid r' = Some (hd (activeTurnOrderUids r')) \<and>
            currentPlayerIndexInOrder r' = 0 \<and> currentQuestionDbIndex r' = 0 \<and>
            currentStealAttempt r' = None)) \<and>
   (\<not> startable d patch fetchResponse \<longrightarrow>
      snd (startGame d patch fetchResponse shuffle) = d)"
  using participating_in_join_order[of d]
  by (auto simp: startable_def startGame_def questionsNeeded_eq getAllQuestions_def Let_def
        participating_length[symmetric]
        split: option.splits fetched.splits)

text \<open>The ended room of Alice and Bob is startable and becomes active; with Alice
  alone in the new room the request changes nothing.\<close>

theorem startGame_transition_witness:
  "startable endedWithTwo onePerPlayer (Fetched (Some exampleItems)) \<and>
   (\<exists>r'. room (snd (startGame endedWithTwo onePerPlayer (Fetched (Some exampleItems)) keepOrder))
           = Some r' \<and>
         state r' = Active \<and>
         inJoinOrder (onlinePlayers endedWithTwo) (activeTurnOrderUids r') \<and>
         currentTurnUid r' = Some (hd (activeTurnOrderUids r')) \<and>
         currentPlayerIndexInOrder r' = 0 \<and> currentQuestionDbIndex r' = 0 \<and>
         currentStealAttempt r' = None) \<and>
   \<not> startable lobby onePerPlayer (Fetched (Some exampleItems)) \<and>
   snd (startGame lobby onePerPlayer (Fetched (Some exampleItems)) keepOrder) = lobby"
proof -
  have a: "startable endedWithTwo onePerPlayer (Fetched (Some exampleItems))"
    unfolding endedWithTwo_eq
    by (simp add: startable_def onlinePlayers_def questionsNeeded_def toDouble_small example_defs)
  have b: "\<not> startable lobby onePerPlayer (Fetched (Some exampleItems))"
    by (simp add: startable_def onlinePlayers_def createRoom_def example_defs)
  show ?thesis
    using startGame_transition
            [of endedWithTwo onePerPlayer "Fetched (Some exampleItems)" keepOrder]
          startGame_transition
            [of lobby onePerPlayer "Fetched (Some exampleItems)" keepOrder]
          a b
    by simp
qed

section \<open>The turn index (C3)\<close>

text \<open>
  C3: in every state reached from a new room by any sequence of events (join, leave,
  start, answer, steal, disconnect, rejoin, settings update, timer), while the room is
  active \<open>activeTurnOrderUids\<close> is non-empty and
  \<open>0 \<le> currentPlayerIndexInOrder < len(activeTurnOrderUids)\<close>.
\<close>

theorem turn_index_in_bounds:
  "indexInBounds (run (createRoom host hostName roomCode) events)"
  by (intro inv_bounds run_inv createRoom_inv)

text \<open>In \<open>started\<close> the room is active, the turn order is Alice, Bob, and the index is
  0.\<close>

theorem turn_index_in_bounds_witness:
  "\<exists>r. room started = Some r \<and> state r = Active \<and> activeTurnOrderUids r \<noteq> [] \<and>
       0 \<le> currentPlayerIndexInOrder r \<and>
       currentPlayerIndexInOrder r < int (length (activeTurnOrderUids r))"
proof -
  have s: "state (the (room started)) = Active" "room started \<noteq> None"
    unfolding started_eq by simp_all
  show ?thesis
    using turn_index_in_bounds
            [of "''alice''" "''Alice''" "''QUIZAB''" "[JoinRoom ''bob'' ''Bob'', startEvent]"] s
    by (auto simp: indexInBounds_def started_def lobby_def split: option.splits)
qed

section \<open>Steal attempts (C4)\<close>


section \<open>A valid steal (C5)\<close>

text \<open>
  No run offers a steal or processes an answer: in every state reached from a new
  room, \<open>submitAnswer\<close> and \<open>handleSteal\<close> leave the state as it is and never return the
  result of an answer.
\<close>

lemma nothing_is_ever_processed:
  "snd (submitAnswer (run (createRoom host hostName roomCode) events) u questionId a t)
     = run (createRoom host hostName roomCode) events \<and>
   snd (handleSteal (run (createRoom host hostName roomCode) events) u questionId a t)
     = run (createRoom host hostName roomCode) events \<and>
   fst (submitAnswer (run (createRoom host hostName roomCode) events) u questionId a t)
     \<noteq> Inr (Answer c ph) \<and>
   fst (handleSteal (run (createRoom host hostName roomCode) events) u questionId a t)
     \<noteq> Inr (Answer c ph)"
  using afq_reachable[of host hostName roomCode events]
  by (auto simp: atFirstQuestion_def submitAnswer_def handleSteal_def getQuestion_def
        split: option.splits)



section \<open>Capacity (C6)\<close>

text \<open>
  C6: at most 8 participants hold the player role. \<open>joinRoom\<close> keeps the bound, but
  \<open>handleRejoinGame\<close> sets the role \<open>player\<close> in a waiting or ended room without
  counting. The host creates a room, seven players join, Zoe joins ninth and is
  made a spectator because the player roles are taken; she sends \<open>game:rejoin\<close> and the
  room has nine players.
\<close>

theorem ninth_player_by_rejoin:
  "countRole Player (run (createRoom ''p1'' ''P1'' ''QUIZAB'') lobbyJoins) = 8 \<and>
   roleOf (run (createRoom ''p1'' ''P1'' ''QUIZAB'') lobbyJoins) ''zoe'' = Some Spectator \<and>
   countRole Player (run (createRoom ''p1'' ''P1'' ''QUIZAB'') (lobbyJoins @ [Rejoin ''zoe''])) = 9"
  by (simp add: run_def lobbyJoins_def createRoom_def joinRoom_def addPlayer_def countRole_def
        roleOf_def MAX_TOTAL_USERS_IN_ROOM_def MAX_PLAYERS_ROLE_COUNT_def
        MAX_SPECTATORS_COUNT_def handleRejoinGame_def rejoinRole_def updatePlayer_def
        getPlayer_def)

section \<open>Rejoining (C7)\<close>

text \<open>
  C7 as stated: a rejoin gives back the role held before the disconnect unless the
  room is active and the slot has passed. It fails: Dave joined the running game as a
  spectator and lost his connection; Bob left, which ended the game; Dave rejoins the
  ended room and \<open>handleRejoinGame\<close> makes him a player.
\<close>

theorem spectator_rejoins_as_player:
  "roleOf daveWatching ''dave'' = Some Spectator \<and>
   roleOf daveWatched ''dave'' = Some Spectator \<and>
   stateOf daveWatched = Some Ended \<and>
   fst (handleRejoinGame daveWatched ''dave'') = Inr Player \<and>
   roleOf (run daveWatched [Rejoin ''dave'']) ''dave'' = Some Player"
  unfolding daveWatched_eq daveWatching_eq started_eq
  by (simp add: roleOf_def stateOf_def model_defs leave_defs)

text \<open>
  C7, amended: a rejoin writes a role that depends on the state of the room alone,
  whatever the role was before: spectator when the room is active and the uid is not
  in \<open>activeTurnOrderUids\<close> or its slot has passed (its index is less than
  \<open>currentPlayerIndexInOrder\<close>, or equal to it with a different \<open>currentTurnUid\<close>), and
  player otherwise. In a room that is not active the reply carries that role.
\<close>

theorem rejoin_role:
  "room d = Some r \<and> u \<noteq> [] \<and> map_of (players d) u = Some p \<longrightarrow>
     roleOf (snd (handleRejoinGame d u)) u =
       Some (if state r = Active \<and>
                (u \<notin> set (activeTurnOrderUids r)
                 \<or> indexOf (activeTurnOrderUids r) u < currentPlayerIndexInOrder r
                 \<or> (indexOf (activeTurnOrderUids r) u = currentPlayerIndexInOrder r
                     \<and> currentTurnUid r \<noteq> Some u))
             then Spectator else Player) \<and>
     (state r \<noteq> Active \<longrightarrow> fst (handleRejoinGame d u) = Inr Player)"
  by (auto simp: handleRejoinGame_def getPlayer_def updatePlayer_def getQuestion_def
        getAllQuestions_def rejoinRole_def turnSlotPassed_def roleOf_def map_of_update
        indexOf_absent Let_def
        split: option.splits if_splits sum.splits)

text \<open>In the running game \<open>daveWatching\<close> Dave is not in the turn order and Bob's slot
  (index 1) is ahead of the current index 0; \<open>daveWatched\<close> has ended.\<close>

theorem rejoin_role_witness:
  "roleOf (snd (handleRejoinGame daveWatching ''dave'')) ''dave'' = Some Spectator \<and>
   roleOf (snd (handleRejoinGame daveWatching ''bob'')) ''bob'' = Some Player \<and>
   roleOf (snd (handleRejoinGame daveWatched ''dave'')) ''dave'' = Some Player \<and>
   fst (handleRejoinGame daveWatched ''dave'') = Inr Player"
proof -
  obtain r where r: "room daveWatching = Some r" "state r = Active"
    "activeTurnOrderUids r = [''alice'', ''bob'']" "currentPlayerIndexInOrder r = 0"
    unfolding daveWatching_eq started_eq by simp
  obtain r' where r': "room daveWatched = Some r'" "state r' = Ended"
    unfolding daveWatched_eq started_eq by simp
  obtain p where p: "map_of (players daveWatching) ''dave'' = Some p"
    unfolding daveWatching_eq started_eq by simp
  obtain q where q: "map_of (players daveWatching) ''bob'' = Some q"
    unfolding daveWatching_eq started_eq by simp
  obtain p' where p': "map_of (players daveWatched) ''dave'' = Some p'"
    unfolding daveWatched_eq started_eq by simp
  show ?thesis
    using rejoin_role[of daveWatching r "''dave''" p]
          rejoin_role[of daveWatching r "''bob''" q]
          rejoin_role[of daveWatched r' "''dave''" p'] r r' p q p'
    by simp
qed

section \<open>Deleting a room (C9)\<close>

text \<open>
  C9 as stated: when the last participant leaves, the question documents are deleted
  with the room. It fails: Alice is the last participant of \<open>bobLeft\<close>; after she
  leaves the room document is gone and question 0 is still stored. (\<open>deleteRoom\<close> in
  roomModel.js says so itself: subcollections are not deleted.)
\<close>

theorem questions_survive_room_deletion:
  "isLastParticipant bobLeft ''alice'' \<and>
   room (run bobLeft [LeaveRoom ''alice'']) = None \<and>
   questions (run bobLeft [LeaveRoom ''alice'']) 0 =
     Some \<lparr>qid = ''0'', options = [''A'', ''B'', ''C'', ''D''], correctIndex = 3\<rparr>"
  unfolding bobLeft_eq started_eq
  by (simp add: isLastParticipant_def model_defs leave_defs)

text \<open>
  C9, amended: when the last participant leaves, the room document is deleted and no
  player document is left (the leaver's own document is deleted first); the question
  documents are not deleted, every one of them stays.
\<close>

theorem last_leave_deletes_room_only:
  "isLastParticipant d u \<longrightarrow>
     (case fst (leaveRoom d u) of Inl e \<Rightarrow> False | Inr result \<Rightarrow> roomDeleted result) \<and>
     room (snd (leaveRoom d u)) = None \<and>
     players (snd (leaveRoom d u)) = [] \<and>
     questions (snd (leaveRoom d u)) = questions d"
  by (auto simp: isLastParticipant_def leaveRoom_def deletePlayer_def
        getPlayersByRoomSorted_def deleteRoom_def)

text \<open>Alice leaves \<open>bobLeft\<close>: no room, no player, and question 2 is still there.\<close>

theorem last_leave_deletes_room_only_witness:
  "isLastParticipant bobLeft ''alice'' \<and>
   room (snd (leaveRoom bobLeft ''alice'')) = None \<and>
   players (snd (leaveRoom bobLeft ''alice'')) = [] \<and>
   questions (snd (leaveRoom bobLeft ''alice'')) 2 =
     Some \<lparr>qid = ''2'', options = [''A'', ''B'', ''C'', ''D''], correctIndex = 3\<rparr>"
proof -
  have l: "isLastParticipant bobLeft ''alice''"
    unfolding bobLeft_eq started_eq by (simp add: isLastParticipant_def)
  have q: "questions bobLeft 2 =
     Some \<lparr>qid = ''2'', options = [''A'', ''B'', ''C'', ''D''], correctIndex = 3\<rparr>"
    unfolding bobLeft_eq started_eq by simp
  show ?thesis
    using last_leave_deletes_room_only[of bobLeft "''alice''"] l q by simp
qed

end
